theory Spec2Isabelle
  imports Complex_Main "HOL-Library.Word" "HOL-Library.Log_Nat"
begin

unbundle bit_operations_syntax

section \<open>JavaScript values and operators used by the decoders\<close>

text \<open>
  The payload is an array of bytes. Everything the decoders compute from it is a
  JavaScript value: \<open>undefined\<close> (an array read past the end), \<open>NaN\<close>, a number, a
  boolean, a string or an object literal. Strict equality \<open>===\<close> of the source is
  equality of \<open>jsval\<close>; the decoders apply it to a byte of the payload (or \<open>undefined\<close>)
  and a numeric literal only.

  A JavaScript number is a binary double. \<open>JNum r\<close> stands for the double nearest to
  the rational \<open>r\<close>, which is \<open>to_double r\<close>: the result of an arithmetic operator is
  kept as the exact result on the doubles of its operands, and is rounded when it is
  next used as an operand. So \<open>s / 10\<close> for an integer \<open>s\<close> is \<open>JNum (s / 10)\<close>, the
  correctly rounded quotient, and \<open>a + b / 100\<close> is \<open>JNum (a + to_double (b / 100))\<close>:
  the quotient is rounded before the sum is. Bytes and the other integers of the
  decoders are doubles as they are.
\<close>

type_synonym u8 = "8 word"

datatype jsval =
    JUndefined
  | JNaN
  | JNum rat
  | JBool bool
  | JStr string
  | JObj "(string \<times> jsval) list"

text \<open>A decoded result is a JavaScript object: a finite map from property names to values.\<close>

type_synonym obj = "string \<rightharpoonup> jsval"

text \<open>
  Rounding to the nearest double, ties to even: \<open>to_double r\<close> keeps 53 significant
  bits of \<open>r\<close>. \<open>ilog2 r\<close> is the exponent of a positive \<open>r\<close>, with
  \<open>pow2 (ilog2 r) \<le> r < pow2 (ilog2 r + 1)\<close>. Overflow and subnormal numbers are left
  out: every non-zero number the decoders compute lies between \<open>1 / 256\<close> and \<open>65536\<close>
  in magnitude.
\<close>

definition pow2 :: "int \<Rightarrow> rat" where
  "pow2 e = (if 0 \<le> e then 2 ^ nat e else 1 / 2 ^ nat (- e))"

definition ilog2 :: "rat \<Rightarrow> int" where
  "ilog2 r = (if 1 \<le> r then bitlen \<lfloor>r\<rfloor> - 1 else - bitlen (\<lceil>1 / r\<rceil> - 1))"

definition round_even :: "rat \<Rightarrow> int" where
  "round_even x =
     (let f = \<lfloor>x\<rfloor>; d = x - of_int f
      in if d < 1 / 2 then f else if 1 / 2 < d then f + 1 else if even f then f else f + 1)"

definition to_double :: "rat \<Rightarrow> rat" where
  "to_double r =
     (if r = 0 then 0
      else (let e = ilog2 \<bar>r\<bar> - 52 in of_int (round_even (r / pow2 e)) * pow2 e))"

text \<open>\<open>bytes[i]\<close>: the byte as a number, or \<open>undefined\<close> past the end.\<close>

definition byte_at :: "u8 list \<Rightarrow> nat \<Rightarrow> jsval" where
  "byte_at bytes i = (if i < length bytes then JNum (unsigned (bytes ! i)) else JUndefined)"

text \<open>\<open>bytes.slice(a, b)\<close> for \<open>0 \<le> a \<le> b\<close>: the elements that exist in that range.\<close>

definition slice :: "u8 list \<Rightarrow> nat \<Rightarrow> nat \<Rightarrow> u8 list" where
  "slice bytes a b = take (b - a) (drop a bytes)"

text \<open>
  \<open>ToInt32\<close>, applied by \<open><<\<close>, \<open>>>\<close> and \<open>&\<close> to their operands: \<open>undefined\<close> and
  \<open>NaN\<close> become 0, a number is truncated towards zero and wrapped to 32 bits signed.
  Strings and objects never reach an arithmetic operator in these decoders; their
  conversion to a number is not modelled and they are sent to 0 here.
\<close>

definition ToInt32 :: "jsval \<Rightarrow> int" where
  "ToInt32 v =
     (case v of
        JNum r \<Rightarrow>
          signed_take_bit 31 (if 0 \<le> to_double r then \<lfloor>to_double r\<rfloor> else \<lceil>to_double r\<rceil>)
      | JBool b \<Rightarrow> (if b then 1 else 0)
      | _ \<Rightarrow> 0)"

text \<open>\<open>v << n\<close>: a 32-bit signed result.\<close>

definition js_shl :: "jsval \<Rightarrow> nat \<Rightarrow> int" where
  "js_shl v n = signed_take_bit 31 (push_bit n (ToInt32 v))"

text \<open>\<open>v >> n\<close>: the sign-propagating shift.\<close>

definition js_shr :: "jsval \<Rightarrow> nat \<Rightarrow> int" where
  "js_shr v n = drop_bit n (ToInt32 v)"

text \<open>\<open>v & k\<close>.\<close>

definition js_and :: "jsval \<Rightarrow> int \<Rightarrow> int" where
  "js_and v k = ToInt32 v AND k"

text \<open>
  \<open>a + b\<close> on numbers: the exact sum of the two doubles, to be rounded. An
  \<open>undefined\<close> or \<open>NaN\<close> operand gives \<open>NaN\<close>.
\<close>

fun js_add :: "jsval \<Rightarrow> jsval \<Rightarrow> jsval" where
  "js_add (JNum a) (JNum b) = JNum (to_double a + to_double b)"
| "js_add _ _ = JNaN"

text \<open>
  \<open>v / k\<close> for a non-zero integer literal \<open>k\<close>: the exact quotient of the double of
  \<open>v\<close> by \<open>k\<close>, to be rounded; \<open>undefined / k\<close> is \<open>NaN\<close>.
\<close>

fun js_div :: "jsval \<Rightarrow> rat \<Rightarrow> jsval" where
  "js_div (JNum a) k = JNum (to_double a / k)"
| "js_div _ k = JNaN"

text \<open>\<open>v > k\<close> for a numeric literal \<open>k\<close>; false when \<open>v\<close> is \<open>undefined\<close> or \<open>NaN\<close>.\<close>

fun js_gt :: "jsval \<Rightarrow> rat \<Rightarrow> bool" where
  "js_gt (JNum a) k = (k < to_double a)"
| "js_gt _ k = False"

section \<open>Bytes to number\<close>

text \<open>
  \<^verbatim>\<open>function readUInt16LE(bytes) { var value = (bytes[1] << 8) + bytes[0]; return value & 0xffff; }\<close>
\<close>

definition readUInt16LE :: "u8 list \<Rightarrow> int" where
  "readUInt16LE bytes =
     (let value = js_add (JNum (of_int (js_shl (byte_at bytes 1) 8))) (byte_at bytes 0)
      in js_and value 0xffff)"

text \<open>
  \<^verbatim>\<open>function readInt16LE(bytes) { var ref = readUInt16LE(bytes); return ref > 0x7fff ? ref - 0x10000 : ref; }\<close>
\<close>

definition readInt16LE :: "u8 list \<Rightarrow> int" where
  "readInt16LE bytes =
     (let ref = readUInt16LE bytes in if ref > 0x7fff then ref - 0x10000 else ref)"

text \<open>
  \<^verbatim>\<open>function readUInt16BE(bytes) { var value = (bytes[0] << 8) + bytes[1]; return value; }\<close>
  There is no mask here, so a missing second byte makes the result \<open>NaN\<close>.
\<close>

definition readUInt16BE :: "u8 list \<Rightarrow> jsval" where
  "readUInt16BE bytes = js_add (JNum (of_int (js_shl (byte_at bytes 0) 8))) (byte_at bytes 1)"

text \<open>
  \<^verbatim>\<open>function bcd2ToDecimal(value) {
    var result = value & 0xF;
    if (result > 9 || value >= 0xA0) { return 0; }
    return result + 10 * (value >> 4); }\<close>
  It is only called on the results of \<open>>>\<close> and \<open>&\<close>, which are 32-bit integers.
\<close>

definition bcd2ToDecimal :: "int \<Rightarrow> int" where
  "bcd2ToDecimal v =
     (let result = v AND 0xF
      in if result > 9 \<or> v \<ge> 0xA0 then 0 else result + 10 * drop_bit 4 v)"

text \<open>
  \<^verbatim>\<open>function bcd22ToVersion(value) {
    var result = bcd2ToDecimal(value >> 8) + (bcd2ToDecimal(value & 0xFF) / 100);
    return result; }\<close>
\<close>

definition bcd22ToVersion :: "jsval \<Rightarrow> jsval" where
  "bcd22ToVersion v =
     js_add (JNum (of_int (bcd2ToDecimal (js_shr v 8))))
            (js_div (JNum (of_int (bcd2ToDecimal (js_and v 0xFF)))) 100)"

definition readVersion :: "u8 list \<Rightarrow> jsval" where
  "readVersion bytes = bcd22ToVersion (readUInt16BE bytes)"

text \<open>\<open>n.toString(16)\<close> for a non-negative integer: lowercase digits, no leading zero.\<close>

definition hexdigit :: "nat \<Rightarrow> char" where
  "hexdigit d = ''0123456789abcdef'' ! d"

function toString16 :: "nat \<Rightarrow> string" where
  "toString16 n = (if n < 16 then [hexdigit n] else toString16 (n div 16) @ [hexdigit (n mod 16)])"
  by pat_completeness auto
termination
  by (relation "measure id") auto

text \<open>\<open>s.substr(-k)\<close>: the last \<open>k\<close> characters (all of \<open>s\<close> when it is shorter).\<close>

definition substr_last :: "nat \<Rightarrow> string \<Rightarrow> string" where
  "substr_last k s = drop (length s - k) s"

text \<open>
  \<^verbatim>\<open>function encodeHex(byte) { return ("0" + byte.toString(16)).substr(-2); }\<close>
\<close>

definition encodeHex :: "u8 \<Rightarrow> string" where
  "encodeHex byte = substr_last 2 (''0'' @ toString16 (unat byte))"

text \<open>
  \<^verbatim>\<open>function readHexBytes(bytes) {
    var result = "";
    for (var i = 0; i < bytes.length; ++i) { result = result + "-" + encodeHex(bytes[i]); }
    return result.substr(1); }\<close>
\<close>

fun readHexBytes_loop :: "u8 list \<Rightarrow> string \<Rightarrow> string" where
  "readHexBytes_loop [] result = result"
| "readHexBytes_loop (b # bs) result = readHexBytes_loop bs (result @ ''-'' @ encodeHex b)"

definition readHexBytes :: "u8 list \<Rightarrow> string" where
  "readHexBytes bytes = drop 1 (readHexBytes_loop bytes '''')"

section \<open>The decoding loop\<close>

text \<open>
  One pass through the body of the \<open>for\<close> loop either falls through to the next
  iteration with a new cursor and result, or leaves the loop with \<open>break\<close>.
\<close>

datatype flow = Continue nat obj | Break nat obj

subsection \<open>AM100.js\<close>

definition body_AM100 :: "u8 list \<Rightarrow> nat \<Rightarrow> obj \<Rightarrow> flow" where
  "body_AM100 bytes i0 decoded =
     (let channel_id = byte_at bytes i0;
          channel_type = byte_at bytes (i0 + 1);
          i = i0 + 2
      in
      if channel_id = JNum 0x01 \<and> channel_type = JNum 0x75 then
        Continue (i + 1)
          (decoded(''battery'' \<mapsto> (if js_gt (byte_at bytes i) 100 then JNum 100 else byte_at bytes i)))
      else if channel_id = JNum 0x03 \<and> channel_type = JNum 0x67 then
        Continue (i + 2)
          (decoded(''temperature'' \<mapsto> js_div (JNum (of_int (readInt16LE (slice bytes i (i + 2))))) 10))
      else if channel_id = JNum 0x04 \<and> channel_type = JNum 0x68 then
        Continue (i + 1) (decoded(''humidity'' \<mapsto> js_div (byte_at bytes i) 2))
      else if channel_id = JNum 0x05 \<and> channel_type = JNum 0x6A then
        Continue (i + 2)
          (decoded(''activity'' \<mapsto> JNum (of_int (readInt16LE (slice bytes i (i + 2))))))
      else if channel_id = JNum 0x06 \<and> channel_type = JNum 0x65 then
        Continue (i + 6)
          (decoded(''illumination'' \<mapsto> JNum (of_int (readInt16LE (slice bytes i (i + 2))))))
      else if channel_id = JNum 0x07 \<and> channel_type = JNum 0x7D then
        Continue (i + 2)
          (decoded(''co2'' \<mapsto> JNum (of_int (readInt16LE (slice bytes i (i + 2))))))
      else if channel_id = JNum 0x08 \<and> channel_type = JNum 0x7D then
        Continue (i + 2)
          (decoded(''tvoc'' \<mapsto> JNum (of_int (readInt16LE (slice bytes i (i + 2))))))
      else if channel_id = JNum 0x09 \<and> channel_type = JNum 0x73 then
        Continue (i + 2)
          (decoded(''pressure'' \<mapsto> js_div (JNum (of_int (readInt16LE (slice bytes i (i + 2))))) 10))
      else if channel_id = JNum 0xFF then
        (if channel_type = JNum 0x0B then
           Continue (i + 1) (decoded(''restart'' \<mapsto> JNum 1))
         else if channel_type = JNum 0x01 then
           Continue (i + 1) (decoded(''FormatVersion'' \<mapsto> byte_at bytes i))
         else if channel_type = JNum 0x08 then
           Continue (i + 6) (decoded(''SerialNumber'' \<mapsto> JStr (readHexBytes (slice bytes i (i + 6)))))
         else if channel_type = JNum 0x09 then
           Continue (i + 2) (decoded(''HardwareVersion'' \<mapsto> readVersion (slice bytes i (i + 2))))
         else if channel_type = JNum 0x0A then
           Continue (i + 2) (decoded(''SoftwareVersion'' \<mapsto> readVersion (slice bytes i (i + 2))))
         else if channel_type = JNum 0x0F then
           Continue (i + 1) (decoded(''Class'' \<mapsto> byte_at bytes i))
         else if channel_type = JNum 0x18 then
           (let enabledSensors = readUInt16BE (slice bytes i (i + 2))
            in Continue (i + 2)
                 (decoded(''EnabledSensors'' \<mapsto> JObj
                    [(''temperature'', JBool (js_and enabledSensors 0x01 \<noteq> 0)),
                     (''humidity'', JBool (js_and enabledSensors 0x02 \<noteq> 0)),
                     (''activity'', JBool (js_and enabledSensors 0x04 \<noteq> 0)),
                     (''illumination'', JBool (js_and enabledSensors 0x08 \<noteq> 0)),
                     (''co2'', JBool (js_and enabledSensors 0x10 \<noteq> 0)),
                     (''tvoc'', JBool (js_and enabledSensors 0x20 \<noteq> 0)),
                     (''pressure'', JBool (js_and enabledSensors 0x40 \<noteq> 0))])))
         else Break i (decoded(''Error'' \<mapsto> JBool True)))
      else Break i (decoded(''error'' \<mapsto> JBool True)))"

lemma body_AM100_advances: "body_AM100 bytes i decoded = Continue i' d' \<Longrightarrow> i < i'"
  unfolding body_AM100_def Let_def by (simp split: if_splits)

function loop_AM100 :: "u8 list \<Rightarrow> nat \<Rightarrow> obj \<Rightarrow> nat \<times> obj" where
  "loop_AM100 bytes i decoded =
     (if i < length bytes then
        (case body_AM100 bytes i decoded of
           Continue i' d' \<Rightarrow> loop_AM100 bytes i' d'
         | Break i' d' \<Rightarrow> (i', d'))
      else (i, decoded))"
  by pat_completeness auto
termination
  by (relation "measure (\<lambda>(bytes, i, decoded). length bytes - i)")
     (auto dest: body_AM100_advances)

text \<open>
  \<open>Decoder(bytes, port)\<close> of AM100.js; \<open>None\<close> is the \<open>null\<close> it returns for a port
  that is neither absent nor 85.
\<close>

definition Decoder_AM100 :: "u8 list \<Rightarrow> jsval \<Rightarrow> obj option" where
  "Decoder_AM100 bytes port =
     (if \<not> (port = JUndefined \<or> port = JNum 85) then None
      else Some (snd (loop_AM100 bytes 0 (Map.empty(''Error'' \<mapsto> JBool False)))))"

subsection \<open>The copy of AM100.js inside AM100-node-red.js\<close>

text \<open>
  The same function, except that \<open>activity\<close>, \<open>illumination\<close>, \<open>tvoc\<close> and
  \<open>pressure\<close> are read with \<open>readUInt16LE\<close>.
\<close>

definition body_node_red :: "u8 list \<Rightarrow> nat \<Rightarrow> obj \<Rightarrow> flow" where
  "body_node_red bytes i0 decoded =
     (let channel_id = byte_at bytes i0;
          channel_type = byte_at bytes (i0 + 1);
          i = i0 + 2
      in
      if channel_id = JNum 0x01 \<and> channel_type = JNum 0x75 then
        Continue (i + 1)
          (decoded(''battery'' \<mapsto> (if js_gt (byte_at bytes i) 100 then JNum 100 else byte_at bytes i)))
      else if channel_id = JNum 0x03 \<and> channel_type = JNum 0x67 then
        Continue (i + 2)
          (decoded(''temperature'' \<mapsto> js_div (JNum (of_int (readInt16LE (slice bytes i (i + 2))))) 10))
      else if channel_id = JNum 0x04 \<and> channel_type = JNum 0x68 then
        Continue (i + 1) (decoded(''humidity'' \<mapsto> js_div (byte_at bytes i) 2))
      else if channel_id = JNum 0x05 \<and> channel_type = JNum 0x6A then
        Continue (i + 2)
          (decoded(''activity'' \<mapsto> JNum (of_int (readUInt16LE (slice bytes i (i + 2))))))
      else if channel_id = JNum 0x06 \<and> channel_type = JNum 0x65 then
        Continue (i + 6)
          (decoded(''illumination'' \<mapsto> JNum (of_int (readUInt16LE (slice bytes i (i + 2))))))
      else if channel_id = JNum 0x07 \<and> channel_type = JNum 0x7D then
        Continue (i + 2)
          (decoded(''co2'' \<mapsto> JNum (of_int (readInt16LE (slice bytes i (i + 2))))))
      else if channel_id = JNum 0x08 \<and> channel_type = JNum 0x7D then
        Continue (i + 2)
          (decoded(''tvoc'' \<mapsto> JNum (of_int (readUInt16LE (slice bytes i (i + 2))))))
      else if channel_id = JNum 0x09 \<and> channel_type = JNum 0x73 then
        Continue (i + 2)
          (decoded(''pressure'' \<mapsto> js_div (JNum (of_int (readUInt16LE (slice bytes i (i + 2))))) 10))
      else if channel_id = JNum 0xFF then
        (if channel_type = JNum 0x0B then
           Continue (i + 1) (decoded(''restart'' \<mapsto> JNum 1))
         else if channel_type = JNum 0x01 then
           Continue (i + 1) (decoded(''FormatVersion'' \<mapsto> byte_at bytes i))
         else if channel_type = JNum 0x08 then
           Continue (i + 6) (decoded(''SerialNumber'' \<mapsto> JStr (readHexBytes (slice bytes i (i + 6)))))
         else if channel_type = JNum 0x09 then
           Continue (i + 2) (decoded(''HardwareVersion'' \<mapsto> readVersion (slice bytes i (i + 2))))
         else if channel_type = JNum 0x0A then
           Continue (i + 2) (decoded(''SoftwareVersion'' \<mapsto> readVersion (slice bytes i (i + 2))))
         else if channel_type = JNum 0x0F then
           Continue (i + 1) (decoded(''Class'' \<mapsto> byte_at bytes i))
         else if channel_type = JNum 0x18 then
           (let enabledSensors = readUInt16BE (slice bytes i (i + 2))
            in Continue (i + 2)
                 (decoded(''EnabledSensors'' \<mapsto> JObj
                    [(''temperature'', JBool (js_and enabledSensors 0x01 \<noteq> 0)),
                     (''humidity'', JBool (js_and enabledSensors 0x02 \<noteq> 0)),
                     (''activity'', JBool (js_and enabledSensors 0x04 \<noteq> 0)),
                     (''illumination'', JBool (js_and enabledSensors 0x08 \<noteq> 0)),
                     (''co2'', JBool (js_and enabledSensors 0x10 \<noteq> 0)),
                     (''tvoc'', JBool (js_and enabledSensors 0x20 \<noteq> 0)),
                     (''pressure'', JBool (js_and enabledSensors 0x40 \<noteq> 0))])))
         else Break i (decoded(''Error'' \<mapsto> JBool True)))
      else Break i (decoded(''error'' \<mapsto> JBool True)))"

lemma body_node_red_advances: "body_node_red bytes i decoded = Continue i' d' \<Longrightarrow> i < i'"
  unfolding body_node_red_def Let_def by (simp split: if_splits)

function loop_node_red :: "u8 list \<Rightarrow> nat \<Rightarrow> obj \<Rightarrow> nat \<times> obj" where
  "loop_node_red bytes i decoded =
     (if i < length bytes then
        (case body_node_red bytes i decoded of
           Continue i' d' \<Rightarrow> loop_node_red bytes i' d'
         | Break i' d' \<Rightarrow> (i', d'))
      else (i, decoded))"
  by pat_completeness auto
termination
  by (relation "measure (\<lambda>(bytes, i, decoded). length bytes - i)")
     (auto dest: body_node_red_advances)

definition Decoder_node_red :: "u8 list \<Rightarrow> jsval \<Rightarrow> obj option" where
  "Decoder_node_red bytes port =
     (if \<not> (port = JUndefined \<or> port = JNum 85) then None
      else Some (snd (loop_node_red bytes 0 (Map.empty(''Error'' \<mapsto> JBool False)))))"

subsection \<open>EM500-SMT.js\<close>

text \<open>
  The script EM500-SMT.js declares \<open>Decoder\<close>, \<open>readUInt16LE\<close> and \<open>readInt16LE\<close>
  only. Its calls of \<open>readVersion\<close> and \<open>readHexBytes\<close> name functions that the script
  does not declare, so evaluating them throws a \<open>ReferenceError\<close> out of \<open>Decoder\<close>.
\<close>

datatype js_error = ReferenceError string

text \<open>
  The system block (channel id 0xFF) is three statements in sequence: an
  \<open>if / else if / else if\<close> without a final \<open>else\<close>, a lone \<open>if\<close>, and an
  \<open>if / else if / else if / else\<close> whose last branch sets \<open>Error\<close> and breaks.
\<close>

definition body_SMT :: "u8 list \<Rightarrow> nat \<Rightarrow> obj \<Rightarrow> js_error + flow" where
  "body_SMT bytes i0 decoded =
     (if int i0 > int (length bytes) - 2 then Inr (Break i0 (decoded(''Error'' \<mapsto> JBool True)))
      else
      (let channel_id = byte_at bytes i0;
           channel_type = byte_at bytes (i0 + 1);
           i = i0 + 2
       in
       if channel_id = JNum 0x01 \<and> channel_type = JNum 0x75 then
         Inr (Continue (i + 1) (decoded(''battery'' \<mapsto> byte_at bytes i)))
       else if channel_id = JNum 0x03 \<and> channel_type = JNum 0x67 then
         Inr (Continue (i + 2)
           (decoded(''temperature'' \<mapsto> js_div (JNum (of_int (readInt16LE (slice bytes i (i + 2))))) 10)))
       else if channel_id = JNum 0x04 \<and> channel_type = JNum 0x68 then
         Inr (Continue (i + 1) (decoded(''humidity'' \<mapsto> js_div (byte_at bytes i) 2)))
       else if channel_id = JNum 0x05 \<and> channel_type = JNum 0x7f then
         Inr (Continue (i + 2)
           (decoded(''conductivity'' \<mapsto> JNum (of_int (readInt16LE (slice bytes i (i + 2)))))))
       else if channel_id = JNum 0xFF then
         (case (if channel_type = JNum 0x01 then
                  Inr (i + 1, decoded(''FormatVersion'' \<mapsto> byte_at bytes i))
                else if channel_type = JNum 0x09 then Inl (ReferenceError ''readVersion'')
                else if channel_type = JNum 0x0A then Inl (ReferenceError ''readVersion'')
                else Inr (i, decoded)) of
            Inl e \<Rightarrow> Inl e
          | Inr (i1, d1) \<Rightarrow>
              (let (i2, d2) = (if channel_type = JNum 0x0B
                               then (i1 + 1, d1(''restart'' \<mapsto> JNum 1)) else (i1, d1))
               in
               if channel_type = JNum 0x0C then
                 Inr (Continue (i2 + 1) (d2(''shutdown'' \<mapsto> JNum 1)))
               else if channel_type = JNum 0x0F then
                 Inr (Continue (i2 + 1) (d2(''Class'' \<mapsto> byte_at bytes i2)))
               else if channel_type = JNum 0x16 then Inl (ReferenceError ''readHexBytes'')
               else Inr (Break i2 (d2(''Error'' \<mapsto> JBool True)))))
       else Inr (Break i (decoded(''error'' \<mapsto> JBool True)))))"

lemma body_SMT_advances: "body_SMT bytes i decoded = Inr (Continue i' d') \<Longrightarrow> i < i'"
  unfolding body_SMT_def Let_def by (simp split: if_splits)

function loop_SMT :: "u8 list \<Rightarrow> nat \<Rightarrow> obj \<Rightarrow> js_error + nat \<times> obj" where
  "loop_SMT bytes i decoded =
     (if i < length bytes then
        (case body_SMT bytes i decoded of
           Inl e \<Rightarrow> Inl e
         | Inr (Continue i' d') \<Rightarrow> loop_SMT bytes i' d'
         | Inr (Break i' d') \<Rightarrow> Inr (i', d'))
      else Inr (i, decoded))"
  by pat_completeness auto
termination
  by (relation "measure (\<lambda>(bytes, i, decoded). length bytes - i)")
     (auto dest: body_SMT_advances)

definition Decoder_SMT :: "u8 list \<Rightarrow> jsval \<Rightarrow> js_error + obj option" where
  "Decoder_SMT bytes port =
     (if \<not> (port = JUndefined \<or> port = JNum 85) then Inr None
      else (case loop_SMT bytes 0 (Map.empty(''Error'' \<mapsto> JBool False)) of
              Inl e \<Rightarrow> Inl e
            | Inr (i, decoded) \<Rightarrow> Inr (Some decoded)))"

subsection \<open>The EM500-LGT decoder\<close>

text \<open>
  The light-sensor script: no port check, no \<open>Error\<close> property, and a bare \<open>break\<close>
  on a channel it does not know. \<open>port\<close> is a parameter that the body never reads.
\<close>

definition body_LGT :: "u8 list \<Rightarrow> nat \<Rightarrow> obj \<Rightarrow> flow" where
  "body_LGT bytes i0 decoded =
     (let channel_id = byte_at bytes i0;
          channel_type = byte_at bytes (i0 + 1);
          i = i0 + 2
      in
      if channel_id = JNum 0x01 \<and> channel_type = JNum 0x75 then
        Continue (i + 1) (decoded(''battery'' \<mapsto> byte_at bytes i))
      else if channel_id = JNum 0x03 \<and> channel_type = JNum 0x94 then
        Continue (i + 4)
          (decoded(''light'' \<mapsto> JNum (of_int (readInt16LE (slice bytes i (i + 4))))))
      else Break i decoded)"

lemma body_LGT_advances: "body_LGT bytes i decoded = Continue i' d' \<Longrightarrow> i < i'"
  unfolding body_LGT_def Let_def by (simp split: if_splits)

function loop_LGT :: "u8 list \<Rightarrow> nat \<Rightarrow> obj \<Rightarrow> nat \<times> obj" where
  "loop_LGT bytes i decoded =
     (if i < length bytes then
        (case body_LGT bytes i decoded of
           Continue i' d' \<Rightarrow> loop_LGT bytes i' d'
         | Break i' d' \<Rightarrow> (i', d'))
      else (i, decoded))"
  by pat_completeness auto
termination
  by (relation "measure (\<lambda>(bytes, i, decoded). length bytes - i)")
     (auto dest: body_LGT_advances)

definition Decoder_LGT :: "u8 list \<Rightarrow> jsval \<Rightarrow> obj option" where
  "Decoder_LGT bytes port = Some (snd (loop_LGT bytes 0 Map.empty))"

section \<open>Reference definitions taken from the specification\<close>

text \<open>
  The channel table of a profile: the (channel-id, channel-type, data width) triples the
  decoder recognises, in the order in which its \<open>if\<close> chain tests them.
\<close>

type_synonym channel_table = "(rat \<times> rat \<times> nat) list"

definition table_AM100 :: channel_table where
  "table_AM100 =
     [(0x01, 0x75, 1), (0x03, 0x67, 2), (0x04, 0x68, 1), (0x05, 0x6A, 2), (0x06, 0x65, 6),
      (0x07, 0x7D, 2), (0x08, 0x7D, 2), (0x09, 0x73, 2),
      (0xFF, 0x0B, 1), (0xFF, 0x01, 1), (0xFF, 0x08, 6), (0xFF, 0x09, 2), (0xFF, 0x0A, 2),
      (0xFF, 0x0F, 1), (0xFF, 0x18, 2)]"

definition table_SMT :: channel_table where
  "table_SMT =
     [(0x01, 0x75, 1), (0x03, 0x67, 2), (0x04, 0x68, 1), (0x05, 0x7f, 2),
      (0xFF, 0x01, 1), (0xFF, 0x09, 2), (0xFF, 0x0A, 2), (0xFF, 0x0B, 1), (0xFF, 0x0C, 1),
      (0xFF, 0x0F, 1), (0xFF, 0x16, 6)]"

definition table_LGT :: channel_table where
  "table_LGT = [(0x01, 0x75, 1), (0x03, 0x94, 4)]"

text \<open>A header pair that was read is known to a profile when its table has that pair.\<close>

definition known :: "channel_table \<Rightarrow> jsval \<Rightarrow> jsval \<Rightarrow> bool" where
  "known tbl channel_id channel_type =
     list_ex (\<lambda>(a, b, w). channel_id = JNum a \<and> channel_type = JNum b) tbl"

text \<open>
  The 16-bit little-endian values of the specification: \<open>lo + 256 * hi\<close>, and for the
  signed variant that value minus \<open>0x10000\<close> when it is at least \<open>0x8000\<close>.
\<close>

definition uint16_le :: "u8 \<Rightarrow> u8 \<Rightarrow> int" where
  "uint16_le lo hi = uint lo + 256 * uint hi"

definition int16_le :: "u8 \<Rightarrow> u8 \<Rightarrow> int" where
  "int16_le lo hi =
     (if uint16_le lo hi \<ge> 0x8000 then uint16_le lo hi - 0x10000 else uint16_le lo hi)"

text \<open>
  A packed-BCD byte of the specification: 0 when its low nibble exceeds 9 or its value is
  at least \<open>0xA0\<close>, otherwise ten times the high nibble plus the low nibble.
\<close>

definition bcd_byte :: "u8 \<Rightarrow> int" where
  "bcd_byte b =
     (if uint b mod 16 > 9 \<or> uint b \<ge> 0xA0 then 0 else 10 * (uint b div 16) + uint b mod 16)"

text \<open>A byte as exactly two lowercase hexadecimal digits.\<close>

definition hex2 :: "u8 \<Rightarrow> string" where
  "hex2 b = [hexdigit (unat b div 16), hexdigit (unat b mod 16)]"

text \<open>The two error properties of a result, \<open>Error\<close> and \<open>error\<close>.\<close>

definition error_flags :: "obj \<Rightarrow> jsval option \<times> jsval option" where
  "error_flags r = (r ''Error'', r ''error'')"

text \<open>
  The states in which a decoder's loop tests its condition: the initial one, and the
  one after each pass through the body that did not break.
\<close>

inductive visits_AM100 :: "u8 list \<Rightarrow> nat \<Rightarrow> obj \<Rightarrow> bool" for bytes where
  visits_AM100_start: "visits_AM100 bytes 0 [''Error'' \<mapsto> JBool False]"
| visits_AM100_step:
    "visits_AM100 bytes i d \<Longrightarrow> i < length bytes \<Longrightarrow>
     body_AM100 bytes i d = Continue i' d' \<Longrightarrow> visits_AM100 bytes i' d'"

inductive visits_node_red :: "u8 list \<Rightarrow> nat \<Rightarrow> obj \<Rightarrow> bool" for bytes where
  visits_node_red_start: "visits_node_red bytes 0 [''Error'' \<mapsto> JBool False]"
| visits_node_red_step:
    "visits_node_red bytes i d \<Longrightarrow> i < length bytes \<Longrightarrow>
     body_node_red bytes i d = Continue i' d' \<Longrightarrow> visits_node_red bytes i' d'"

inductive visits_SMT :: "u8 list \<Rightarrow> nat \<Rightarrow> obj \<Rightarrow> bool" for bytes where
  visits_SMT_start: "visits_SMT bytes 0 [''Error'' \<mapsto> JBool False]"
| visits_SMT_step:
    "visits_SMT bytes i d \<Longrightarrow> i < length bytes \<Longrightarrow>
     body_SMT bytes i d = Inr (Continue i' d') \<Longrightarrow> visits_SMT bytes i' d'"

inductive visits_LGT :: "u8 list \<Rightarrow> nat \<Rightarrow> obj \<Rightarrow> bool" for bytes where
  visits_LGT_start: "visits_LGT bytes 0 Map.empty"
| visits_LGT_step:
    "visits_LGT bytes i d \<Longrightarrow> i < length bytes \<Longrightarrow>
     body_LGT bytes i d = Continue i' d' \<Longrightarrow> visits_LGT bytes i' d'"

section \<open>Properties of the operators and readers\<close>

declare loop_AM100.simps [simp del] loop_node_red.simps [simp del]
  loop_SMT.simps [simp del] loop_LGT.simps [simp del]

lemma round_even_of_int [simp]: "round_even (of_int j) = j"
  by (simp add: round_even_def)

lemma to_double_of_int:
  assumes "\<bar>k\<bar> < 2 ^ 53"
  shows "to_double (of_int k) = of_int k"
proof (cases "k = 0")
  case True
  then show ?thesis by (simp add: to_double_def)
next
  case False
  then have "0 < \<bar>k\<bar>" by simp
  then have one: "(1::rat) \<le> \<bar>of_int k\<bar>"
    by (metis of_int_1_le_iff of_int_abs int_one_le_iff_zero_less)
  have fl: "\<lfloor>\<bar>of_int k :: rat\<bar>\<rfloor> = \<bar>k\<bar>"
    by (metis of_int_abs floor_of_int)
  have "bitlen \<bar>k\<bar> \<le> 53"
    using assms by (simp add: bitlen_le_iff_power)
  then have e: "ilog2 \<bar>of_int k\<bar> - 52 \<le> 0"
    using one by (simp add: ilog2_def fl)
  define e where "e = ilog2 \<bar>of_int k :: rat\<bar> - 52"
  define n where "n = nat (- e)"
  from e have p: "pow2 e = 1 / 2 ^ n"
    by (cases "e = 0") (simp_all add: pow2_def e_def n_def)
  have "of_int k / pow2 e = (of_int (k * 2 ^ n) :: rat)"
    by (simp add: p)
  then have "round_even (of_int k / pow2 e) = k * 2 ^ n"
    by (simp only: round_even_of_int)
  then have "of_int (round_even (of_int k / pow2 e)) * pow2 e = (of_int k :: rat)"
    by (simp add: p)
  with False show ?thesis
    by (simp add: to_double_def e_def Let_def)
qed

lemma to_double_small_int:
  "- 2147483648 \<le> k \<Longrightarrow> k < 2147483648 \<Longrightarrow> to_double (of_int k) = of_int k"
  by (rule to_double_of_int) simp

lemma int32_id:
  "- 2147483648 \<le> k \<Longrightarrow> k < 2147483648 \<Longrightarrow> signed_take_bit 31 k = (k::int)"
  by (rule signed_take_bit_int_eq_self) simp_all

lemma ToInt32_of_int:
  assumes "- 2147483648 \<le> k" and "k < 2147483648"
  shows "ToInt32 (JNum (of_int k)) = k"
proof -
  have d: "to_double (of_int k) = of_int k"
    using assms by (rule to_double_small_int)
  have "(if (0::rat) \<le> of_int k then \<lfloor>(of_int k :: rat)\<rfloor> else \<lceil>(of_int k :: rat)\<rceil>) = k"
    by simp
  moreover have "signed_take_bit 31 k = k"
    using assms by (rule int32_id)
  ultimately show ?thesis
    unfolding ToInt32_def jsval.case d by simp
qed

lemma uint_u8_bounds: "0 \<le> uint (b :: u8)" "uint (b :: u8) < 256"
  using uint_lt2p [of b] by simp_all

lemma to_double_byte [simp]: "to_double (unsigned (b :: u8)) = unsigned b"
proof -
  have "0 \<le> uint b" "uint b < 256" by (rule uint_u8_bounds)+
  then have "to_double (of_int (uint b)) = of_int (uint b)"
    by (intro to_double_small_int) linarith+
  then show ?thesis by simp
qed

lemma to_double_256_byte [simp]: "to_double (256 * unsigned (b :: u8)) = 256 * unsigned b"
proof -
  have "0 \<le> uint b" "uint b < 256" by (rule uint_u8_bounds)+
  then have "to_double (of_int (256 * uint b)) = of_int (256 * uint b)"
    by (intro to_double_small_int) linarith+
  then show ?thesis by simp
qed

lemma uint16_le_bounds: "0 \<le> uint16_le lo hi" "uint16_le lo hi < 65536"
  using uint_u8_bounds [of lo] uint_u8_bounds [of hi] by (simp_all add: uint16_le_def)

lemma int16_le_bounds: "- 32768 \<le> int16_le lo hi" "int16_le lo hi < 32768"
  using uint16_le_bounds [of lo hi] by (simp_all add: int16_le_def)

lemma to_double_uint16_le [simp]:
  "to_double (of_int (uint16_le lo hi)) = of_int (uint16_le lo hi)"
  using uint16_le_bounds [of lo hi] by (intro to_double_small_int) linarith+

lemma to_double_int16_le [simp]:
  "to_double (of_int (int16_le lo hi)) = of_int (int16_le lo hi)"
  using int16_le_bounds [of lo hi] by (intro to_double_small_int) linarith+

lemma bcd_byte_bounds: "0 \<le> bcd_byte b" "bcd_byte b < 100"
proof -
  define u where "u = uint b"
  have u: "0 \<le> u" by (simp add: u_def)
  have "0 \<le> (if u mod 16 > 9 \<or> u \<ge> 0xA0 then 0 else 10 * (u div 16) + u mod 16)"
    using u by presburger
  moreover have "(if u mod 16 > 9 \<or> u \<ge> 0xA0 then 0 else 10 * (u div 16) + u mod 16) < 100"
    using u by presburger
  ultimately show "0 \<le> bcd_byte b" "bcd_byte b < 100"
    unfolding bcd_byte_def u_def by blast+
qed

lemma to_double_bcd_byte [simp]: "to_double (of_int (bcd_byte b)) = of_int (bcd_byte b)"
  using bcd_byte_bounds [of b] by (intro to_double_small_int) linarith+

lemma ToInt32_byte: "ToInt32 (JNum (unsigned (b :: u8))) = uint b"
proof -
  have b: "0 \<le> uint b" "uint b < 256" by (rule uint_u8_bounds)+
  then have "ToInt32 (JNum (of_int (uint b))) = uint b"
    by (intro ToInt32_of_int) linarith+
  then show ?thesis by simp
qed

lemma byte_at_Nil [simp]: "byte_at [] n = JUndefined"
  by (simp add: byte_at_def)

lemma byte_at_Cons_0 [simp]: "byte_at (b # bs) 0 = JNum (unsigned b)"
  by (simp add: byte_at_def)

lemma byte_at_Cons_Suc [simp]: "byte_at (b # bs) (Suc n) = byte_at bs n"
  by (simp add: byte_at_def)

lemma js_shl_byte_8: "js_shl (JNum (unsigned (b :: u8))) 8 = 256 * uint b"
proof -
  have b: "0 \<le> uint b" "uint b < 256" by (rule uint_u8_bounds)+
  have "ToInt32 (JNum (unsigned b)) = uint b"
    by (rule ToInt32_byte)
  moreover have "signed_take_bit 31 (256 * uint b) = 256 * uint b"
    using b by (intro int32_id) linarith+
  ultimately show ?thesis
    by (simp add: js_shl_def push_bit_eq_mult mult.commute)
qed

lemma and_0xffff: "0 \<le> k \<Longrightarrow> k < 65536 \<Longrightarrow> k AND 0xffff = (k::int)"
proof -
  assume "0 \<le> k" "k < 65536"
  then have "take_bit 16 k = k" by (simp add: take_bit_int_eq_self)
  moreover have "(0xffff :: int) = mask 16" by (simp add: mask_eq_exp_minus_1)
  ultimately show ?thesis by (simp add: take_bit_eq_mask)
qed

lemma readUInt16LE_two: "readUInt16LE (lo # hi # rest) = uint16_le lo hi"
proof -
  have b: "0 \<le> uint lo" "uint lo < 256" "0 \<le> uint hi" "uint hi < 256"
    by (rule uint_u8_bounds)+
  let ?k = "256 * uint hi + uint lo"
  have v: "js_add (JNum (of_int (js_shl (byte_at (lo # hi # rest) 1) 8))) (byte_at (lo # hi # rest) 0)
        = JNum (of_int ?k)"
    by (simp add: js_shl_byte_8)
  have "ToInt32 (JNum (of_int ?k)) = ?k"
    using b by (intro ToInt32_of_int) linarith+
  moreover have "?k AND 0xffff = ?k"
    using b by (intro and_0xffff) linarith+
  ultimately show ?thesis
    unfolding readUInt16LE_def Let_def v js_and_def uint16_le_def by simp
qed

lemma readInt16LE_two: "readInt16LE (lo # hi # rest) = int16_le lo hi"
  by (simp add: readInt16LE_def readUInt16LE_two int16_le_def)

lemma readUInt16BE_two: "readUInt16BE (hi # lo # rest) = JNum (of_int (256 * uint hi + uint lo))"
  by (simp add: readUInt16BE_def js_shl_byte_8)

lemma drop_bit_8_pair:
  "0 \<le> l \<Longrightarrow> l < 256 \<Longrightarrow> drop_bit 8 (256 * h + l) = (h::int)"
  by (simp add: drop_bit_eq_div)

lemma and_0xFF_pair:
  assumes "0 \<le> l" "l < 256"
  shows "(256 * h + l) AND 0xFF = (l::int)"
proof -
  have "(0xFF :: int) = mask 8" by (simp add: mask_eq_exp_minus_1)
  then have "(256 * h + l) AND 0xFF = take_bit 8 (256 * h + l)"
    by (simp add: take_bit_eq_mask)
  also have "\<dots> = (256 * h + l) mod 256" by (simp add: take_bit_eq_mod)
  also have "\<dots> = l" using assms by simp
  finally show ?thesis .
qed

lemma bcd2ToDecimal_byte: "bcd2ToDecimal (uint b) = bcd_byte b"
proof -
  have "(0xF :: int) = mask 4" by (simp add: mask_eq_exp_minus_1)
  then have "uint b AND 0xF = take_bit 4 (uint b)"
    by (simp add: take_bit_eq_mask)
  then have "uint b AND 0xF = uint b mod 16"
    by (simp add: take_bit_eq_mod)
  moreover have "drop_bit 4 (uint b) = uint b div 16"
    by (simp add: drop_bit_eq_div)
  ultimately show ?thesis
    by (simp add: bcd2ToDecimal_def bcd_byte_def Let_def)
qed

lemma readVersion_bcd:
  "readVersion (b0 # b1 # rest) =
     JNum (of_int (bcd_byte b0) + to_double (of_int (bcd_byte b1) / 100))"
proof -
  have b: "0 \<le> uint b0" "uint b0 < 256" "0 \<le> uint b1" "uint b1 < 256"
    by (rule uint_u8_bounds)+
  let ?k = "256 * uint b0 + uint b1"
  have t: "ToInt32 (JNum (of_int ?k)) = ?k"
    using b by (intro ToInt32_of_int) linarith+
  have hi: "js_shr (JNum (of_int ?k)) 8 = uint b0"
    unfolding js_shr_def t using b by (intro drop_bit_8_pair)
  have lo: "js_and (JNum (of_int ?k)) 0xFF = uint b1"
    unfolding js_and_def t using b by (intro and_0xFF_pair)
  have "bcd22ToVersion (JNum (of_int ?k)) =
      JNum (of_int (bcd_byte b0) + to_double (of_int (bcd_byte b1) / 100))"
    unfolding bcd22ToVersion_def hi lo bcd2ToDecimal_byte js_div.simps js_add.simps
      to_double_bcd_byte ..
  then show ?thesis
    by (simp only: readVersion_def readUInt16BE_two)
qed

lemma encodeHex_digits: "encodeHex b = hex2 b"
proof -
  have lt: "unat b < 256" using unsigned_less [of b, where ?'a = nat] by simp
  show ?thesis
  proof (cases "unat b < 16")
    case True
    then have "hexdigit (unat b div 16) = CHR ''0''" by (simp add: hexdigit_def)
    with True show ?thesis by (simp add: encodeHex_def substr_last_def hex2_def)
  next
    case False
    from lt have "unat b div 16 < 16" by simp
    then have "toString16 (unat b div 16) = [hexdigit (unat b div 16)]"
      by simp
    with False have "toString16 (unat b) = [hexdigit (unat b div 16), hexdigit (unat b mod 16)]"
      by (subst toString16.simps) simp
    then show ?thesis by (simp add: encodeHex_def substr_last_def hex2_def)
  qed
qed

section \<open>Unfolding the loops\<close>

lemma loop_AM100_next:
  "i < length bytes \<Longrightarrow> body_AM100 bytes i d = Continue i' d' \<Longrightarrow>
   loop_AM100 bytes i d = loop_AM100 bytes i' d'"
  by (subst loop_AM100.simps) simp

lemma loop_AM100_break:
  "i < length bytes \<Longrightarrow> body_AM100 bytes i d = Break i' d' \<Longrightarrow>
   loop_AM100 bytes i d = (i', d')"
  by (subst loop_AM100.simps) simp

lemma loop_AM100_done: "length bytes \<le> i \<Longrightarrow> loop_AM100 bytes i d = (i, d)"
  by (subst loop_AM100.simps) simp

lemma loop_node_red_next:
  "i < length bytes \<Longrightarrow> body_node_red bytes i d = Continue i' d' \<Longrightarrow>
   loop_node_red bytes i d = loop_node_red bytes i' d'"
  by (subst loop_node_red.simps) simp

lemma loop_node_red_break:
  "i < length bytes \<Longrightarrow> body_node_red bytes i d = Break i' d' \<Longrightarrow>
   loop_node_red bytes i d = (i', d')"
  by (subst loop_node_red.simps) simp

lemma loop_node_red_done: "length bytes \<le> i \<Longrightarrow> loop_node_red bytes i d = (i, d)"
  by (subst loop_node_red.simps) simp

lemma loop_SMT_next:
  "i < length bytes \<Longrightarrow> body_SMT bytes i d = Inr (Continue i' d') \<Longrightarrow>
   loop_SMT bytes i d = loop_SMT bytes i' d'"
  by (subst loop_SMT.simps) simp

lemma loop_SMT_break:
  "i < length bytes \<Longrightarrow> body_SMT bytes i d = Inr (Break i' d') \<Longrightarrow>
   loop_SMT bytes i d = Inr (i', d')"
  by (subst loop_SMT.simps) simp

lemma loop_SMT_throw:
  "i < length bytes \<Longrightarrow> body_SMT bytes i d = Inl e \<Longrightarrow> loop_SMT bytes i d = Inl e"
  by (subst loop_SMT.simps) simp

lemma loop_SMT_done: "length bytes \<le> i \<Longrightarrow> loop_SMT bytes i d = Inr (i, d)"
  by (subst loop_SMT.simps) simp

lemma loop_LGT_next:
  "i < length bytes \<Longrightarrow> body_LGT bytes i d = Continue i' d' \<Longrightarrow>
   loop_LGT bytes i d = loop_LGT bytes i' d'"
  by (subst loop_LGT.simps) simp

lemma loop_LGT_break:
  "i < length bytes \<Longrightarrow> body_LGT bytes i d = Break i' d' \<Longrightarrow>
   loop_LGT bytes i d = (i', d')"
  by (subst loop_LGT.simps) simp

lemma loop_LGT_done: "length bytes \<le> i \<Longrightarrow> loop_LGT bytes i d = (i, d)"
  by (subst loop_LGT.simps) simp

section \<open>One record at the cursor\<close>

lemma header_at:
  "byte_at (pre @ a # b # rest) (length pre) = JNum (unsigned a)"
  "byte_at (pre @ a # b # rest) (length pre + 1) = JNum (unsigned b)"
  "byte_at (pre @ a # b # rest) (length pre + 2) = byte_at rest 0"
  "slice (pre @ a # b # rest) (length pre + 2) (length pre + 2 + n) = take n rest"
  by (simp_all add: byte_at_def nth_append slice_def)

lemma battery_value:
  "(if js_gt (JNum (unsigned (v::u8))) 100 then JNum 100 else JNum (unsigned v)) =
     JNum (of_int (min (uint v) 100))"
proof (cases "uint v \<le> 100")
  case True
  then have "\<not> (100::rat) < of_int (uint v)" by linarith
  then have "\<not> (100::rat) < unsigned v" by simp
  with True show ?thesis by (simp add: min_def)
next
  case False
  then have "(100::rat) < of_int (uint v)" by linarith
  then have "(100::rat) < unsigned v" by simp
  with False show ?thesis by (simp add: min_def)
qed

lemma body_AM100_battery:
  "body_AM100 (pre @ 0x01 # 0x75 # v # post) (length pre) d =
     Continue (length pre + 3) (d(''battery'' \<mapsto> JNum (of_int (min (uint v) 100))))"
  unfolding body_AM100_def Let_def header_at
  by (simp only: byte_at_Cons_0 battery_value) simp

lemma body_AM100_temperature:
  "body_AM100 (pre @ 0x03 # 0x67 # lo # hi # post) (length pre) d =
     Continue (length pre + 4)
       (d(''temperature'' \<mapsto> JNum (of_int (int16_le lo hi) / 10)))"
  unfolding body_AM100_def Let_def header_at
  by (simp add: readInt16LE_two)

lemma body_AM100_HardwareVersion:
  "body_AM100 (pre @ 0xFF # 0x09 # b0 # b1 # post) (length pre) d =
     Continue (length pre + 4) (d(''HardwareVersion'' \<mapsto> readVersion [b0, b1]))"
  unfolding body_AM100_def Let_def header_at
  by simp

lemma body_AM100_SoftwareVersion:
  "body_AM100 (pre @ 0xFF # 0x0A # b0 # b1 # post) (length pre) d =
     Continue (length pre + 4) (d(''SoftwareVersion'' \<mapsto> readVersion [b0, b1]))"
  unfolding body_AM100_def Let_def header_at
  by simp

lemma body_AM100_SerialNumber:
  "body_AM100 (pre @ 0xFF # 0x08 # b0 # b1 # b2 # b3 # b4 # b5 # post) (length pre) d =
     Continue (length pre + 8)
       (d(''SerialNumber'' \<mapsto> JStr (readHexBytes [b0, b1, b2, b3, b4, b5])))"
  unfolding body_AM100_def Let_def header_at
  by simp

lemma readHexBytes_six:
  "readHexBytes [b0, b1, b2, b3, b4, b5] =
     hex2 b0 @ ''-'' @ hex2 b1 @ ''-'' @ hex2 b2 @ ''-'' @ hex2 b3 @ ''-'' @ hex2 b4 @ ''-'' @ hex2 b5"
  by (simp add: readHexBytes_def encodeHex_digits)

lemma body_node_red_battery:
  "body_node_red (pre @ 0x01 # 0x75 # v # post) (length pre) d =
     Continue (length pre + 3) (d(''battery'' \<mapsto> JNum (of_int (min (uint v) 100))))"
  unfolding body_node_red_def Let_def header_at
  by (simp only: byte_at_Cons_0 battery_value) simp

lemma body_SMT_battery:
  "body_SMT (pre @ 0x01 # 0x75 # v # post) (length pre) d =
     Inr (Continue (length pre + 3) (d(''battery'' \<mapsto> JNum (of_int (uint v)))))"
  unfolding body_SMT_def Let_def header_at by simp

lemma body_LGT_battery:
  "body_LGT (pre @ 0x01 # 0x75 # v # post) (length pre) d =
     Continue (length pre + 3) (d(''battery'' \<mapsto> JNum (of_int (uint v))))"
  unfolding body_LGT_def Let_def header_at by simp

lemma body_node_red_temperature:
  "body_node_red (pre @ 0x03 # 0x67 # lo # hi # post) (length pre) d =
     Continue (length pre + 4)
       (d(''temperature'' \<mapsto> JNum (of_int (int16_le lo hi) / 10)))"
  unfolding body_node_red_def Let_def header_at
  by (simp add: readInt16LE_two)

lemma body_SMT_temperature:
  "body_SMT (pre @ 0x03 # 0x67 # lo # hi # post) (length pre) d =
     Inr (Continue (length pre + 4)
       (d(''temperature'' \<mapsto> JNum (of_int (int16_le lo hi) / 10))))"
  unfolding body_SMT_def Let_def header_at
  by (simp add: readInt16LE_two)

section \<open>Channels that store 16-bit fields\<close>

lemma body_AM100_signed_fields:
  "body_AM100 (pre @ 0x05 # 0x6A # lo # hi # post) (length pre) d =
     Continue (length pre + 4) (d(''activity'' \<mapsto> JNum (of_int (int16_le lo hi))))"
  "body_AM100 (pre @ 0x06 # 0x65 # lo # hi # post) (length pre) d =
     Continue (length pre + 8) (d(''illumination'' \<mapsto> JNum (of_int (int16_le lo hi))))"
  "body_AM100 (pre @ 0x08 # 0x7D # lo # hi # post) (length pre) d =
     Continue (length pre + 4) (d(''tvoc'' \<mapsto> JNum (of_int (int16_le lo hi))))"
  "body_AM100 (pre @ 0x09 # 0x73 # lo # hi # post) (length pre) d =
     Continue (length pre + 4) (d(''pressure'' \<mapsto> JNum (of_int (int16_le lo hi) / 10)))"
  unfolding body_AM100_def Let_def header_at
  by (simp_all add: readInt16LE_two)

lemma body_node_red_unsigned_fields:
  "body_node_red (pre @ 0x05 # 0x6A # lo # hi # post) (length pre) d =
     Continue (length pre + 4) (d(''activity'' \<mapsto> JNum (of_int (uint16_le lo hi))))"
  "body_node_red (pre @ 0x06 # 0x65 # lo # hi # post) (length pre) d =
     Continue (length pre + 8) (d(''illumination'' \<mapsto> JNum (of_int (uint16_le lo hi))))"
  "body_node_red (pre @ 0x08 # 0x7D # lo # hi # post) (length pre) d =
     Continue (length pre + 4) (d(''tvoc'' \<mapsto> JNum (of_int (uint16_le lo hi))))"
  "body_node_red (pre @ 0x09 # 0x73 # lo # hi # post) (length pre) d =
     Continue (length pre + 4) (d(''pressure'' \<mapsto> JNum (of_int (uint16_le lo hi) / 10)))"
  unfolding body_node_red_def Let_def header_at
  by (simp_all add: readUInt16LE_two)

lemma int16_le_eq_uint16_le: "(int16_le lo hi = uint16_le lo hi) = (uint16_le lo hi < 0x8000)"
  by (simp add: int16_le_def)

lemma single_field_eq:
  "([''Error'' \<mapsto> e, k \<mapsto> v] = [''Error'' \<mapsto> e, k \<mapsto> w]) = (v = w)"
  by (auto dest: map_upd_eqD1)

lemma Decoder_AM100_one:
  assumes "body_AM100 bytes 0 [''Error'' \<mapsto> JBool False] = Continue (length bytes) d'"
    and "bytes \<noteq> []"
  shows "Decoder_AM100 bytes JUndefined = Some d'"
  using assms by (simp add: Decoder_AM100_def loop_AM100_next [of 0 bytes _ "length bytes" d'] loop_AM100_done)

lemma Decoder_node_red_one:
  assumes "body_node_red bytes 0 [''Error'' \<mapsto> JBool False] = Continue (length bytes) d'"
    and "bytes \<noteq> []"
  shows "Decoder_node_red bytes JUndefined = Some d'"
  using assms by (simp add: Decoder_node_red_def loop_node_red_next [of 0 bytes _ "length bytes" d'] loop_node_red_done)

lemma signed_unsigned_single_records:
  "Decoder_AM100 [0x05, 0x6A, lo, hi] JUndefined =
     Some [''Error'' \<mapsto> JBool False, ''activity'' \<mapsto> JNum (of_int (int16_le lo hi))]"
  "Decoder_node_red [0x05, 0x6A, lo, hi] JUndefined =
     Some [''Error'' \<mapsto> JBool False, ''activity'' \<mapsto> JNum (of_int (uint16_le lo hi))]"
  "Decoder_AM100 [0x06, 0x65, lo, hi, b2, b3, b4, b5] JUndefined =
     Some [''Error'' \<mapsto> JBool False, ''illumination'' \<mapsto> JNum (of_int (int16_le lo hi))]"
  "Decoder_node_red [0x06, 0x65, lo, hi, b2, b3, b4, b5] JUndefined =
     Some [''Error'' \<mapsto> JBool False, ''illumination'' \<mapsto> JNum (of_int (uint16_le lo hi))]"
  "Decoder_AM100 [0x08, 0x7D, lo, hi] JUndefined =
     Some [''Error'' \<mapsto> JBool False, ''tvoc'' \<mapsto> JNum (of_int (int16_le lo hi))]"
  "Decoder_node_red [0x08, 0x7D, lo, hi] JUndefined =
     Some [''Error'' \<mapsto> JBool False, ''tvoc'' \<mapsto> JNum (of_int (uint16_le lo hi))]"
  "Decoder_AM100 [0x09, 0x73, lo, hi] JUndefined =
     Some [''Error'' \<mapsto> JBool False, ''pressure'' \<mapsto> JNum (of_int (int16_le lo hi) / 10)]"
  "Decoder_node_red [0x09, 0x73, lo, hi] JUndefined =
     Some [''Error'' \<mapsto> JBool False, ''pressure'' \<mapsto> JNum (of_int (uint16_le lo hi) / 10)]"
  using body_AM100_signed_fields(1) [of "[]" lo hi "[]"]
        body_node_red_unsigned_fields(1) [of "[]" lo hi "[]"]
        body_AM100_signed_fields(2) [of "[]" lo hi "[b2, b3, b4, b5]"]
        body_node_red_unsigned_fields(2) [of "[]" lo hi "[b2, b3, b4, b5]"]
        body_AM100_signed_fields(3) [of "[]" lo hi "[]"]
        body_node_red_unsigned_fields(3) [of "[]" lo hi "[]"]
        body_AM100_signed_fields(4) [of "[]" lo hi "[]"]
        body_node_red_unsigned_fields(4) [of "[]" lo hi "[]"]
  by (simp_all add: Decoder_AM100_one Decoder_node_red_one)

section \<open>Unknown pairs and the error properties\<close>

lemma body_AM100_unknown:
  "\<not> known table_AM100 (byte_at bytes i) (byte_at bytes (i + 1)) \<Longrightarrow>
   body_AM100 bytes i d =
     Break (i + 2) (d((if byte_at bytes i = JNum 0xFF then ''Error'' else ''error'') \<mapsto> JBool True))"
  unfolding known_def table_AM100_def body_AM100_def Let_def by simp

lemma body_node_red_unknown:
  "\<not> known table_AM100 (byte_at bytes i) (byte_at bytes (i + 1)) \<Longrightarrow>
   body_node_red bytes i d =
     Break (i + 2) (d((if byte_at bytes i = JNum 0xFF then ''Error'' else ''error'') \<mapsto> JBool True))"
  unfolding known_def table_AM100_def body_node_red_def Let_def by simp

lemma body_SMT_unknown:
  "i + 2 \<le> length bytes \<Longrightarrow> \<not> known table_SMT (byte_at bytes i) (byte_at bytes (i + 1)) \<Longrightarrow>
   body_SMT bytes i d =
     Inr (Break (i + 2) (d((if byte_at bytes i = JNum 0xFF then ''Error'' else ''error'') \<mapsto> JBool True)))"
  unfolding known_def table_SMT_def body_SMT_def Let_def by simp

lemma body_LGT_unknown:
  "\<not> known table_LGT (byte_at bytes i) (byte_at bytes (i + 1)) \<Longrightarrow>
   body_LGT bytes i d = Break (i + 2) d"
  unfolding known_def table_LGT_def body_LGT_def Let_def by simp

lemma body_SMT_truncated:
  "int i > int (length bytes) - 2 \<Longrightarrow> body_SMT bytes i d = Inr (Break i (d(''Error'' \<mapsto> JBool True)))"
  unfolding body_SMT_def by simp

lemma body_AM100_keeps_flags:
  "body_AM100 bytes i d = Continue i' d' \<Longrightarrow> error_flags d' = error_flags d"
  unfolding body_AM100_def Let_def error_flags_def by (auto split: if_splits)

lemma body_AM100_break_sets_flag:
  "body_AM100 bytes i d = Break i' d' \<Longrightarrow>
   d' = d(''Error'' \<mapsto> JBool True) \<or> d' = d(''error'' \<mapsto> JBool True)"
  unfolding body_AM100_def Let_def by (auto split: if_splits)

lemma body_node_red_keeps_flags:
  "body_node_red bytes i d = Continue i' d' \<Longrightarrow> error_flags d' = error_flags d"
  unfolding body_node_red_def Let_def error_flags_def by (auto split: if_splits)

lemma body_node_red_break_sets_flag:
  "body_node_red bytes i d = Break i' d' \<Longrightarrow>
   d' = d(''Error'' \<mapsto> JBool True) \<or> d' = d(''error'' \<mapsto> JBool True)"
  unfolding body_node_red_def Let_def by (auto split: if_splits)

lemma body_SMT_keeps_flags:
  "body_SMT bytes i d = Inr (Continue i' d') \<Longrightarrow> error_flags d' = error_flags d"
  unfolding body_SMT_def Let_def error_flags_def by (auto split: if_splits)

lemma body_SMT_break_sets_flag:
  "body_SMT bytes i d = Inr (Break i' d') \<Longrightarrow>
   error_flags d' = (Some (JBool True), snd (error_flags d)) \<or>
   error_flags d' = (fst (error_flags d), Some (JBool True))"
  unfolding body_SMT_def Let_def error_flags_def by (auto split: if_splits)

lemma body_LGT_keeps_flags:
  "body_LGT bytes i d = Continue i' d' \<Longrightarrow> error_flags d' = error_flags d"
  "body_LGT bytes i d = Break i' d' \<Longrightarrow> error_flags d' = error_flags d"
  unfolding body_LGT_def Let_def error_flags_def by (auto split: if_splits)

lemma loop_AM100_flags:
  "error_flags d = (Some (JBool False), None) \<Longrightarrow>
   error_flags (snd (loop_AM100 bytes i d)) \<in>
     {(Some (JBool False), None), (Some (JBool True), None), (Some (JBool False), Some (JBool True))}"
proof (induction bytes i d rule: loop_AM100.induct)
  case (1 bytes i d)
  show ?case
  proof (cases "i < length bytes")
    case False
    with "1.prems" show ?thesis by (simp add: loop_AM100_done)
  next
    case True
    show ?thesis
    proof (cases "body_AM100 bytes i d")
      case (Continue i' d')
      then have "error_flags d' = (Some (JBool False), None)"
        using "1.prems" by (simp add: body_AM100_keeps_flags)
      with "1.IH" [OF True Continue] show ?thesis
        by (simp add: loop_AM100_next [OF True Continue])
    next
      case (Break i' d')
      from body_AM100_break_sets_flag [OF Break] "1.prems" show ?thesis
        by (auto simp: loop_AM100_break [OF True Break] error_flags_def)
    qed
  qed
qed

lemma loop_node_red_flags:
  "error_flags d = (Some (JBool False), None) \<Longrightarrow>
   error_flags (snd (loop_node_red bytes i d)) \<in>
     {(Some (JBool False), None), (Some (JBool True), None), (Some (JBool False), Some (JBool True))}"
proof (induction bytes i d rule: loop_node_red.induct)
  case (1 bytes i d)
  show ?case
  proof (cases "i < length bytes")
    case False
    with "1.prems" show ?thesis by (simp add: loop_node_red_done)
  next
    case True
    show ?thesis
    proof (cases "body_node_red bytes i d")
      case (Continue i' d')
      then have "error_flags d' = (Some (JBool False), None)"
        using "1.prems" by (simp add: body_node_red_keeps_flags)
      with "1.IH" [OF True Continue] show ?thesis
        by (simp add: loop_node_red_next [OF True Continue])
    next
      case (Break i' d')
      from body_node_red_break_sets_flag [OF Break] "1.prems" show ?thesis
        by (auto simp: loop_node_red_break [OF True Break] error_flags_def)
    qed
  qed
qed

lemma loop_SMT_flags:
  "error_flags d = (Some (JBool False), None) \<Longrightarrow>
   (\<exists>e. loop_SMT bytes i d = Inl e) \<or>
   (\<exists>i' d'. loop_SMT bytes i d = Inr (i', d') \<and> error_flags d' \<in>
     {(Some (JBool False), None), (Some (JBool True), None), (Some (JBool False), Some (JBool True))})"
proof (induction bytes i d rule: loop_SMT.induct)
  case (1 bytes i d)
  show ?case
  proof (cases "i < length bytes")
    case False
    with "1.prems" show ?thesis by (simp add: loop_SMT_done)
  next
    case True
    show ?thesis
    proof (cases "body_SMT bytes i d")
      case (Inl e)
      then show ?thesis by (simp add: loop_SMT_throw [OF True Inl])
    next
      case (Inr f)
      show ?thesis
      proof (cases f)
        case (Continue i' d')
        with Inr have b: "body_SMT bytes i d = Inr (Continue i' d')" by simp
        then have "error_flags d' = (Some (JBool False), None)"
          using "1.prems" by (simp add: body_SMT_keeps_flags)
        with "1.IH" [OF True Inr Continue] show ?thesis
          by (simp add: loop_SMT_next [OF True b])
      next
        case (Break i' d')
        with Inr have b: "body_SMT bytes i d = Inr (Break i' d')" by simp
        from body_SMT_break_sets_flag [OF b] "1.prems" show ?thesis
          by (auto simp: loop_SMT_break [OF True b])
      qed
    qed
  qed
qed

lemma loop_LGT_flags: "error_flags (snd (loop_LGT bytes i d)) = error_flags d"
proof (induction bytes i d rule: loop_LGT.induct)
  case (1 bytes i d)
  show ?case
  proof (cases "i < length bytes")
    case False
    then show ?thesis by (simp add: loop_LGT_done)
  next
    case True
    show ?thesis
    proof (cases "body_LGT bytes i d")
      case (Continue i' d')
      with "1.IH" [OF True Continue] show ?thesis
        by (simp add: loop_LGT_next [OF True Continue] body_LGT_keeps_flags)
    next
      case (Break i' d')
      then show ?thesis
        by (simp add: loop_LGT_break [OF True Break] body_LGT_keeps_flags)
    qed
  qed
qed

lemma visits_AM100_loop:
  "visits_AM100 bytes i d \<Longrightarrow>
   loop_AM100 bytes 0 [''Error'' \<mapsto> JBool False] = loop_AM100 bytes i d"
  by (induction rule: visits_AM100.induct) (simp_all add: loop_AM100_next)

lemma visits_AM100_flags:
  "visits_AM100 bytes i d \<Longrightarrow> error_flags d = (Some (JBool False), None)"
  by (induction rule: visits_AM100.induct)
     (simp_all add: error_flags_def body_AM100_keeps_flags [unfolded error_flags_def])

lemma visits_node_red_loop:
  "visits_node_red bytes i d \<Longrightarrow>
   loop_node_red bytes 0 [''Error'' \<mapsto> JBool False] = loop_node_red bytes i d"
  by (induction rule: visits_node_red.induct) (simp_all add: loop_node_red_next)

lemma visits_node_red_flags:
  "visits_node_red bytes i d \<Longrightarrow> error_flags d = (Some (JBool False), None)"
  by (induction rule: visits_node_red.induct)
     (simp_all add: error_flags_def body_node_red_keeps_flags [unfolded error_flags_def])

lemma visits_SMT_loop:
  "visits_SMT bytes i d \<Longrightarrow>
   loop_SMT bytes 0 [''Error'' \<mapsto> JBool False] = loop_SMT bytes i d"
  by (induction rule: visits_SMT.induct) (simp_all add: loop_SMT_next)

lemma visits_SMT_flags:
  "visits_SMT bytes i d \<Longrightarrow> error_flags d = (Some (JBool False), None)"
  by (induction rule: visits_SMT.induct)
     (simp_all add: error_flags_def body_SMT_keeps_flags [unfolded error_flags_def])

lemma visits_LGT_loop:
  "visits_LGT bytes i d \<Longrightarrow> loop_LGT bytes 0 Map.empty = loop_LGT bytes i d"
  by (induction rule: visits_LGT.induct) (simp_all add: loop_LGT_next)

lemma visits_LGT_flags:
  "visits_LGT bytes i d \<Longrightarrow> error_flags d = (None, None)"
  by (induction rule: visits_LGT.induct)
     (simp_all add: error_flags_def body_LGT_keeps_flags(1) [unfolded error_flags_def])

section \<open>The claims\<close>

text \<open>
  Claim C1 asks that a payload of exactly one record of the profile's table is consumed
  whole and leaves the error flag false. The format-version record FF 01 01 is in the
  table of EM500-SMT.js, and that decoder stores \<open>FormatVersion = 1\<close> and stops with the
  cursor at 3, the end of the input, but with \<open>Error = true\<close>: after the first
  \<open>if / else if\<close> group of the system block, control runs into the last group, whose
  final \<open>else\<close> sets \<open>Error\<close> and breaks. AM100.js returns \<open>Error = false\<close> on the
  same bytes.
\<close>

theorem SMT_FormatVersion_record_sets_Error:
  "known table_SMT (JNum 0xFF) (JNum 0x01)
   \<and> loop_SMT [0xFF, 0x01, 0x01] 0 [''Error'' \<mapsto> JBool False] =
       Inr (3, [''Error'' \<mapsto> JBool True, ''FormatVersion'' \<mapsto> JNum 1])
   \<and> Decoder_SMT [0xFF, 0x01, 0x01] JUndefined =
       Inr (Some [''Error'' \<mapsto> JBool True, ''FormatVersion'' \<mapsto> JNum 1])
   \<and> Decoder_AM100 [0xFF, 0x01, 0x01] JUndefined =
       Some [''Error'' \<mapsto> JBool False, ''FormatVersion'' \<mapsto> JNum 1]"
proof -
  have k: "known table_SMT (JNum 0xFF) (JNum 0x01)"
    by (simp add: known_def table_SMT_def)
  have b: "body_SMT [0xFF, 0x01, 0x01] 0 [''Error'' \<mapsto> JBool False] =
      Inr (Break 3 [''Error'' \<mapsto> JBool True, ''FormatVersion'' \<mapsto> JNum 1])"
    by (simp add: body_SMT_def byte_at_def fun_upd_twist)
  have l: "loop_SMT [0xFF, 0x01, 0x01] 0 [''Error'' \<mapsto> JBool False] =
       Inr (3, [''Error'' \<mapsto> JBool True, ''FormatVersion'' \<mapsto> JNum 1])"
    by (rule loop_SMT_break [OF _ b]) simp
  have a: "body_AM100 [0xFF, 0x01, 0x01] 0 [''Error'' \<mapsto> JBool False] =
      Continue (length [0xFF, 0x01, 0x01 :: u8]) [''Error'' \<mapsto> JBool False, ''FormatVersion'' \<mapsto> JNum 1]"
    by (simp add: body_AM100_def byte_at_def)
  show ?thesis
    using k l Decoder_AM100_one [OF a] by (simp add: Decoder_SMT_def)
qed

text \<open>
  In AM100.js the property of claim C1 holds for every entry of the table: a payload
  made of the two header bytes and as many data bytes as the entry declares is consumed
  to its end, with \<open>Error = false\<close> and no \<open>error\<close> property.
\<close>

lemma AM100_valid_single_record:
  assumes "(a, b, w) \<in> set table_AM100"
    and "byte_at bytes 0 = JNum a" and "byte_at bytes 1 = JNum b" and "length bytes = 2 + w"
  shows "\<exists>d. loop_AM100 bytes 0 [''Error'' \<mapsto> JBool False] = (length bytes, d) \<and>
             error_flags d = (Some (JBool False), None)"
proof -
  let ?d0 = "[''Error'' \<mapsto> JBool False]"
  have "\<exists>d'. body_AM100 bytes 0 ?d0 = Continue (2 + w) d'"
    using assms(1-3) unfolding table_AM100_def body_AM100_def Let_def by auto
  then obtain d' where b: "body_AM100 bytes 0 ?d0 = Continue (length bytes) d'"
    using assms(4) by auto
  have pos: "0 < length bytes" using assms(4) by simp
  have "error_flags d' = (Some (JBool False), None)"
    using body_AM100_keeps_flags [OF b] by (simp add: error_flags_def)
  moreover have "loop_AM100 bytes 0 ?d0 = (length bytes, d')"
    by (simp add: loop_AM100_next [OF pos b] loop_AM100_done)
  ultimately show ?thesis by blast
qed

text \<open>
  Claim C2 as stated fails on the light decoder: the unknown pair 02 99 ends the loop
  and the result is the empty object, with no error flag.
\<close>

theorem LGT_unknown_pair_sets_no_flag:
  "Decoder_LGT [0x02, 0x99] JUndefined = Some Map.empty"
  by (simp add: Decoder_LGT_def loop_LGT_break [of 0 _ _ 2] body_LGT_def)

text \<open>
  Claim C2, as amended. When the pair read at the cursor is not in the table, the
  ambience and soil decoders set an error flag (\<open>Error\<close> when the channel id is 0xFF,
  \<open>error\<close> otherwise), leave the loop with the cursor just after the two header bytes,
  and keep every property the result had; the bytes 02 99 give
  \<open>{Error: false, error: true}\<close> and no data field. The light decoder leaves the loop in
  the same way with the result unchanged and no flag.
\<close>

theorem unknown_pair_stops_decoding:
  "(i < length bytes \<and> \<not> known table_AM100 (byte_at bytes i) (byte_at bytes (i + 1)) \<longrightarrow>
      loop_AM100 bytes i d =
        (i + 2, d((if byte_at bytes i = JNum 0xFF then ''Error'' else ''error'') \<mapsto> JBool True))
      \<and> loop_node_red bytes i d =
        (i + 2, d((if byte_at bytes i = JNum 0xFF then ''Error'' else ''error'') \<mapsto> JBool True)))
   \<and> (i + 2 \<le> length bytes \<and> \<not> known table_SMT (byte_at bytes i) (byte_at bytes (i + 1)) \<longrightarrow>
      loop_SMT bytes i d =
        Inr (i + 2, d((if byte_at bytes i = JNum 0xFF then ''Error'' else ''error'') \<mapsto> JBool True)))
   \<and> (i < length bytes \<and> \<not> known table_LGT (byte_at bytes i) (byte_at bytes (i + 1)) \<longrightarrow>
      loop_LGT bytes i d = (i + 2, d))
   \<and> Decoder_AM100 [0x02, 0x99] JUndefined =
       Some [''Error'' \<mapsto> JBool False, ''error'' \<mapsto> JBool True]
   \<and> Decoder_node_red [0x02, 0x99] JUndefined =
       Some [''Error'' \<mapsto> JBool False, ''error'' \<mapsto> JBool True]
   \<and> Decoder_SMT [0x02, 0x99] JUndefined =
       Inr (Some [''Error'' \<mapsto> JBool False, ''error'' \<mapsto> JBool True])"
proof -
  have A: "loop_AM100 bytes i d =
        (i + 2, d((if byte_at bytes i = JNum 0xFF then ''Error'' else ''error'') \<mapsto> JBool True))"
    if "i < length bytes" "\<not> known table_AM100 (byte_at bytes i) (byte_at bytes (i + 1))"
    for bytes i d
    using that by (simp add: loop_AM100_break [OF _ body_AM100_unknown])
  have N: "loop_node_red bytes i d =
        (i + 2, d((if byte_at bytes i = JNum 0xFF then ''Error'' else ''error'') \<mapsto> JBool True))"
    if "i < length bytes" "\<not> known table_AM100 (byte_at bytes i) (byte_at bytes (i + 1))"
    for bytes i d
    using that by (simp add: loop_node_red_break [OF _ body_node_red_unknown])
  have S: "loop_SMT bytes i d =
        Inr (i + 2, d((if byte_at bytes i = JNum 0xFF then ''Error'' else ''error'') \<mapsto> JBool True))"
    if "i + 2 \<le> length bytes" "\<not> known table_SMT (byte_at bytes i) (byte_at bytes (i + 1))"
    for bytes i d
    using that by (simp add: loop_SMT_break [OF _ body_SMT_unknown])
  have L: "loop_LGT bytes i d = (i + 2, d)"
    if "i < length bytes" "\<not> known table_LGT (byte_at bytes i) (byte_at bytes (i + 1))"
    for bytes i d
    using that by (simp add: loop_LGT_break [OF _ body_LGT_unknown])
  have kA: "\<not> known table_AM100 (byte_at [0x02, 0x99] 0) (byte_at [0x02, 0x99] (0 + 1))"
    by (simp add: known_def table_AM100_def)
  have kS: "\<not> known table_SMT (byte_at [0x02, 0x99] 0) (byte_at [0x02, 0x99] (0 + 1))"
    by (simp add: known_def table_SMT_def)
  have DA: "Decoder_AM100 [0x02, 0x99] JUndefined =
       Some [''Error'' \<mapsto> JBool False, ''error'' \<mapsto> JBool True]"
    using A [OF _ kA] by (simp add: Decoder_AM100_def)
  have DN: "Decoder_node_red [0x02, 0x99] JUndefined =
       Some [''Error'' \<mapsto> JBool False, ''error'' \<mapsto> JBool True]"
    using N [OF _ kA] by (simp add: Decoder_node_red_def)
  have DS: "Decoder_SMT [0x02, 0x99] JUndefined =
       Inr (Some [''Error'' \<mapsto> JBool False, ''error'' \<mapsto> JBool True])"
    using S [OF _ kS] by (simp add: Decoder_SMT_def)
  show ?thesis
    using A N S L DA DN DS by blast
qed

text \<open>
  The hypotheses of the theorem for C2 hold at the fourth byte of a payload whose first
  record is a battery record: the battery field is kept.
\<close>

theorem unknown_pair_stops_decoding_witness:
  "\<not> known table_AM100 (byte_at [0x01, 0x75, 0x32, 0x02, 0x99, 0x07] 3)
                       (byte_at [0x01, 0x75, 0x32, 0x02, 0x99, 0x07] (3 + 1))
   \<and> loop_AM100 [0x01, 0x75, 0x32, 0x02, 0x99, 0x07] 3 [''battery'' \<mapsto> JNum 50] =
       (5, [''battery'' \<mapsto> JNum 50, ''error'' \<mapsto> JBool True])
   \<and> loop_node_red [0x01, 0x75, 0x32, 0x02, 0x99, 0x07] 3 [''battery'' \<mapsto> JNum 50] =
       (5, [''battery'' \<mapsto> JNum 50, ''error'' \<mapsto> JBool True])
   \<and> \<not> known table_SMT (byte_at [0x01, 0x75, 0x32, 0xFF, 0x99, 0x07] 3)
                       (byte_at [0x01, 0x75, 0x32, 0xFF, 0x99, 0x07] (3 + 1))
   \<and> loop_SMT [0x01, 0x75, 0x32, 0xFF, 0x99, 0x07] 3 [''battery'' \<mapsto> JNum 50] =
       Inr (5, [''battery'' \<mapsto> JNum 50, ''Error'' \<mapsto> JBool True])
   \<and> \<not> known table_LGT (byte_at [0x01, 0x75, 0x32, 0x02, 0x99, 0x07] 3)
                       (byte_at [0x01, 0x75, 0x32, 0x02, 0x99, 0x07] (3 + 1))
   \<and> loop_LGT [0x01, 0x75, 0x32, 0x02, 0x99, 0x07] 3 [''battery'' \<mapsto> JNum 50] =
       (5, [''battery'' \<mapsto> JNum 50])"
  using unknown_pair_stops_decoding [of 3 "[0x01, 0x75, 0x32, 0x02, 0x99, 0x07]" "[''battery'' \<mapsto> JNum 50]"]
        unknown_pair_stops_decoding [of 3 "[0x01, 0x75, 0x32, 0xFF, 0x99, 0x07]" "[''battery'' \<mapsto> JNum 50]"]
  by (simp add: known_def table_AM100_def table_SMT_def table_LGT_def byte_at_def)

text \<open>
  Claim C3 as stated fails on the decoders without a length check. On the single byte
  01, AM100.js reads the missing type byte as \<open>undefined\<close> and ends in its
  unknown-channel branch with \<open>Error = false\<close> and \<open>error = true\<close>; the light decoder
  returns the empty object.
\<close>

theorem single_byte_without_length_check:
  "Decoder_AM100 [0x01] JUndefined = Some [''Error'' \<mapsto> JBool False, ''error'' \<mapsto> JBool True]
   \<and> Decoder_LGT [0x01] JUndefined = Some Map.empty"
  by (simp add: Decoder_AM100_def Decoder_LGT_def loop_AM100_break [of 0 _ _ 2]
        loop_LGT_break [of 0 _ _ 2] body_AM100_def body_LGT_def)

text \<open>
  Claim C3, as amended. In the soil decoder, whenever a header is expected and fewer
  than two bytes remain (\<open>i > bytes.length - 2\<close>), the loop sets \<open>Error = true\<close> and stops
  with the cursor where it was, whatever the remaining byte is; for every payload of one
  byte the result is \<open>{Error: true}\<close> and nothing else.
\<close>

theorem SMT_truncated_header:
  "(i < length bytes \<and> int i > int (length bytes) - 2 \<longrightarrow>
      loop_SMT bytes i d = Inr (i, d(''Error'' \<mapsto> JBool True)))
   \<and> Decoder_SMT [b] JUndefined = Inr (Some [''Error'' \<mapsto> JBool True])"
proof -
  have T: "loop_SMT bytes i d = Inr (i, d(''Error'' \<mapsto> JBool True))"
    if "i < length bytes" "int i > int (length bytes) - 2" for bytes i d
    using that by (simp add: loop_SMT_break [OF _ body_SMT_truncated])
  have "Decoder_SMT [b] JUndefined = Inr (Some [''Error'' \<mapsto> JBool True])"
    using T [of 0 "[b]"] by (simp add: Decoder_SMT_def)
  with T show ?thesis by blast
qed

text \<open>
  The hypotheses of the theorem for C3 hold at the last byte of a payload that ends
  with half a header.
\<close>

theorem SMT_truncated_header_witness:
  "3 < length [0x01, 0x75, 0x32, 0x03 :: u8]
   \<and> int 3 > int (length [0x01, 0x75, 0x32, 0x03 :: u8]) - 2
   \<and> loop_SMT [0x01, 0x75, 0x32, 0x03] 3 [''Error'' \<mapsto> JBool False, ''battery'' \<mapsto> JNum 50] =
       Inr (3, [''Error'' \<mapsto> JBool True, ''battery'' \<mapsto> JNum 50])"
  using SMT_truncated_header [of 3 "[0x01, 0x75, 0x32, 0x03]"
          "[''Error'' \<mapsto> JBool False, ''battery'' \<mapsto> JNum 50]"]
  by (simp add: fun_upd_twist)

text \<open>
  Claim C4 as stated fails on the light decoder, which never looks at the port: with
  port 1 it decodes the battery record.
\<close>

theorem LGT_ignores_port:
  "Decoder_LGT [0x01, 0x75, 0x32] (JNum 1) = Some [''battery'' \<mapsto> JNum 50]"
  by (simp add: Decoder_LGT_def loop_LGT_next [of 0 _ _ 3] loop_LGT_done body_LGT_def byte_at_def)

text \<open>
  Claim C4, as amended. In the ambience and soil decoders every supplied port other
  than 85 gives \<open>null\<close>, whatever the bytes are; with the port absent, or 85, the payload
  is decoded. The light decoder decodes whatever the port is.
\<close>

theorem port_filter_ambience_and_soil:
  "(port \<noteq> JUndefined \<and> port \<noteq> JNum 85 \<longrightarrow>
      Decoder_AM100 bytes port = None \<and> Decoder_node_red bytes port = None
      \<and> Decoder_SMT bytes port = Inr None)
   \<and> Decoder_AM100 bytes JUndefined =
       Some (snd (loop_AM100 bytes 0 [''Error'' \<mapsto> JBool False]))
   \<and> Decoder_AM100 bytes (JNum 85) = Decoder_AM100 bytes JUndefined
   \<and> Decoder_node_red bytes JUndefined =
       Some (snd (loop_node_red bytes 0 [''Error'' \<mapsto> JBool False]))
   \<and> Decoder_node_red bytes (JNum 85) = Decoder_node_red bytes JUndefined
   \<and> Decoder_SMT bytes JUndefined \<noteq> Inr None
   \<and> Decoder_SMT bytes (JNum 85) = Decoder_SMT bytes JUndefined
   \<and> Decoder_LGT bytes port = Some (snd (loop_LGT bytes 0 Map.empty))"
  by (simp add: Decoder_AM100_def Decoder_node_red_def Decoder_SMT_def Decoder_LGT_def
        split: sum.split prod.split)

text \<open>The hypotheses of the theorem for C4 hold for port 1.\<close>

theorem port_filter_ambience_and_soil_witness:
  "JNum 1 \<noteq> JUndefined \<and> JNum 1 \<noteq> JNum 85
   \<and> Decoder_AM100 [0x01, 0x75, 0x32] (JNum 1) = None
   \<and> Decoder_node_red [0x01, 0x75, 0x32] (JNum 1) = None
   \<and> Decoder_SMT [0x01, 0x75, 0x32] (JNum 1) = Inr None"
  using port_filter_ambience_and_soil [of "JNum 1" "[0x01, 0x75, 0x32]"] by simp

text \<open>
  Claim C5, as amended. A battery record (channel id 0x01, type 0x75) with data byte \<open>v\<close>,
  anywhere in a payload, makes the ambience decoders (AM100.js and its copy in
  AM100-node-red.js) store \<open>battery = min(v, 100)\<close> and go on after the record; alone in
  a payload it gives that field and \<open>Error = false\<close>, so raw 200 decodes to 100 and raw
  50 to 50. The soil and light decoders store the raw byte \<open>v\<close> unchanged.
\<close>

theorem battery_clamped_in_ambience_raw_elsewhere:
  "loop_AM100 (pre @ 0x01 # 0x75 # v # post) (length pre) d =
     loop_AM100 (pre @ 0x01 # 0x75 # v # post) (length pre + 3)
       (d(''battery'' \<mapsto> JNum (of_int (min (uint v) 100))))
   \<and> loop_node_red (pre @ 0x01 # 0x75 # v # post) (length pre) d =
     loop_node_red (pre @ 0x01 # 0x75 # v # post) (length pre + 3)
       (d(''battery'' \<mapsto> JNum (of_int (min (uint v) 100))))
   \<and> loop_SMT (pre @ 0x01 # 0x75 # v # post) (length pre) d =
     loop_SMT (pre @ 0x01 # 0x75 # v # post) (length pre + 3)
       (d(''battery'' \<mapsto> JNum (of_int (uint v))))
   \<and> loop_LGT (pre @ 0x01 # 0x75 # v # post) (length pre) d =
     loop_LGT (pre @ 0x01 # 0x75 # v # post) (length pre + 3)
       (d(''battery'' \<mapsto> JNum (of_int (uint v))))
   \<and> Decoder_AM100 [0x01, 0x75, v] JUndefined =
     Some [''Error'' \<mapsto> JBool False, ''battery'' \<mapsto> JNum (of_int (min (uint v) 100))]
   \<and> Decoder_node_red [0x01, 0x75, v] JUndefined =
     Some [''Error'' \<mapsto> JBool False, ''battery'' \<mapsto> JNum (of_int (min (uint v) 100))]
   \<and> Decoder_SMT [0x01, 0x75, v] JUndefined =
     Inr (Some [''Error'' \<mapsto> JBool False, ''battery'' \<mapsto> JNum (of_int (uint v))])
   \<and> Decoder_LGT [0x01, 0x75, v] port = Some [''battery'' \<mapsto> JNum (of_int (uint v))]
   \<and> Decoder_AM100 [0x01, 0x75, 200] JUndefined =
     Some [''Error'' \<mapsto> JBool False, ''battery'' \<mapsto> JNum 100]
   \<and> Decoder_AM100 [0x01, 0x75, 50] JUndefined =
     Some [''Error'' \<mapsto> JBool False, ''battery'' \<mapsto> JNum 50]"
proof -
  have A: "loop_AM100 (pre @ 0x01 # 0x75 # v # post) (length pre) d =
     loop_AM100 (pre @ 0x01 # 0x75 # v # post) (length pre + 3)
       (d(''battery'' \<mapsto> JNum (of_int (min (uint v) 100))))" for pre v post d
    by (rule loop_AM100_next) (simp_all add: body_AM100_battery)
  have N: "loop_node_red (pre @ 0x01 # 0x75 # v # post) (length pre) d =
     loop_node_red (pre @ 0x01 # 0x75 # v # post) (length pre + 3)
       (d(''battery'' \<mapsto> JNum (of_int (min (uint v) 100))))" for pre v post d
    by (rule loop_node_red_next) (simp_all add: body_node_red_battery)
  have S: "loop_SMT (pre @ 0x01 # 0x75 # v # post) (length pre) d =
     loop_SMT (pre @ 0x01 # 0x75 # v # post) (length pre + 3)
       (d(''battery'' \<mapsto> JNum (of_int (uint v))))" for pre v post d
    by (rule loop_SMT_next) (simp_all add: body_SMT_battery)
  have L: "loop_LGT (pre @ 0x01 # 0x75 # v # post) (length pre) d =
     loop_LGT (pre @ 0x01 # 0x75 # v # post) (length pre + 3)
       (d(''battery'' \<mapsto> JNum (of_int (uint v))))" for pre v post d
    by (rule loop_LGT_next) (simp_all add: body_LGT_battery)
  have DA: "Decoder_AM100 [0x01, 0x75, v] JUndefined =
     Some [''Error'' \<mapsto> JBool False, ''battery'' \<mapsto> JNum (of_int (min (uint v) 100))]" for v
    using A [of "[]" v "[]"] by (simp add: Decoder_AM100_def loop_AM100_done)
  have DN: "Decoder_node_red [0x01, 0x75, v] JUndefined =
     Some [''Error'' \<mapsto> JBool False, ''battery'' \<mapsto> JNum (of_int (min (uint v) 100))]" for v
    using N [of "[]" v "[]"] by (simp add: Decoder_node_red_def loop_node_red_done)
  have DS: "Decoder_SMT [0x01, 0x75, v] JUndefined =
     Inr (Some [''Error'' \<mapsto> JBool False, ''battery'' \<mapsto> JNum (of_int (uint v))])" for v
    using S [of "[]" v "[]"] by (simp add: Decoder_SMT_def loop_SMT_done)
  have DL: "Decoder_LGT [0x01, 0x75, v] port = Some [''battery'' \<mapsto> JNum (of_int (uint v))]" for v
    using L [of "[]" v "[]"] by (simp add: Decoder_LGT_def loop_LGT_done)
  have "Decoder_AM100 [0x01, 0x75, 200] JUndefined =
     Some [''Error'' \<mapsto> JBool False, ''battery'' \<mapsto> JNum 100]"
    using DA [of 200] by simp
  moreover have "Decoder_AM100 [0x01, 0x75, 50] JUndefined =
     Some [''Error'' \<mapsto> JBool False, ''battery'' \<mapsto> JNum 50]"
    using DA [of 50] by simp
  ultimately show ?thesis
    using A N S L DA DN DS DL by blast
qed

text \<open>
  Claim C5 as stated fails on the soil decoder: raw value 200 decodes to 200, not 100.
\<close>

theorem SMT_battery_200_not_clamped:
  "Decoder_SMT [0x01, 0x75, 200] JUndefined =
     Inr (Some [''Error'' \<mapsto> JBool False, ''battery'' \<mapsto> JNum 200])"
  by (simp add: Decoder_SMT_def loop_SMT_next [of 0 _ _ 3] loop_SMT_done body_SMT_def)

text \<open>
  Claim C6. A temperature record (channel id 0x03, type 0x67) with data bytes
  \<open>lo, hi\<close> stores \<open>temperature = s / 10\<close>, a quotient and not an integer division,
  where \<open>s\<close> is \<open>lo + 256 * hi\<close> minus \<open>0x10000\<close> when that is at least \<open>0x8000\<close>;
  the bytes 03 67 E6 00 decode to 23 with \<open>Error = false\<close>, and 03 67 E6 FF to -2.6.
\<close>

theorem temperature_signed_tenths:
  "loop_AM100 (pre @ 0x03 # 0x67 # lo # hi # post) (length pre) d =
     loop_AM100 (pre @ 0x03 # 0x67 # lo # hi # post) (length pre + 4)
       (d(''temperature'' \<mapsto> JNum (of_int (int16_le lo hi) / 10)))
   \<and> Decoder_AM100 [0x03, 0x67, lo, hi] JUndefined =
     Some [''Error'' \<mapsto> JBool False, ''temperature'' \<mapsto> JNum (of_int (int16_le lo hi) / 10)]
   \<and> Decoder_node_red [0x03, 0x67, lo, hi] JUndefined =
     Some [''Error'' \<mapsto> JBool False, ''temperature'' \<mapsto> JNum (of_int (int16_le lo hi) / 10)]
   \<and> Decoder_SMT [0x03, 0x67, lo, hi] JUndefined =
     Inr (Some [''Error'' \<mapsto> JBool False, ''temperature'' \<mapsto> JNum (of_int (int16_le lo hi) / 10)])
   \<and> Decoder_AM100 [0x03, 0x67, 0xE6, 0x00] JUndefined =
     Some [''Error'' \<mapsto> JBool False, ''temperature'' \<mapsto> JNum 23]
   \<and> Decoder_AM100 [0x03, 0x67, 0xE6, 0xFF] JUndefined =
     Some [''Error'' \<mapsto> JBool False, ''temperature'' \<mapsto> JNum (- 26 / 10)]"
proof -
  have A: "loop_AM100 (pre @ 0x03 # 0x67 # lo # hi # post) (length pre) d =
     loop_AM100 (pre @ 0x03 # 0x67 # lo # hi # post) (length pre + 4)
       (d(''temperature'' \<mapsto> JNum (of_int (int16_le lo hi) / 10)))" for pre lo hi post d
    by (rule loop_AM100_next) (simp_all add: body_AM100_temperature)
  have N: "loop_node_red (pre @ 0x03 # 0x67 # lo # hi # post) (length pre) d =
     loop_node_red (pre @ 0x03 # 0x67 # lo # hi # post) (length pre + 4)
       (d(''temperature'' \<mapsto> JNum (of_int (int16_le lo hi) / 10)))" for pre lo hi post d
    by (rule loop_node_red_next) (simp_all add: body_node_red_temperature)
  have S: "loop_SMT (pre @ 0x03 # 0x67 # lo # hi # post) (length pre) d =
     loop_SMT (pre @ 0x03 # 0x67 # lo # hi # post) (length pre + 4)
       (d(''temperature'' \<mapsto> JNum (of_int (int16_le lo hi) / 10)))" for pre lo hi post d
    by (rule loop_SMT_next) (simp_all add: body_SMT_temperature)
  have DA: "Decoder_AM100 [0x03, 0x67, lo, hi] JUndefined =
     Some [''Error'' \<mapsto> JBool False, ''temperature'' \<mapsto> JNum (of_int (int16_le lo hi) / 10)]"
    for lo hi
    using A [of "[]" lo hi "[]"] by (simp add: Decoder_AM100_def loop_AM100_done)
  have DN: "Decoder_node_red [0x03, 0x67, lo, hi] JUndefined =
     Some [''Error'' \<mapsto> JBool False, ''temperature'' \<mapsto> JNum (of_int (int16_le lo hi) / 10)]"
    using N [of "[]" lo hi "[]"] by (simp add: Decoder_node_red_def loop_node_red_done)
  have DS: "Decoder_SMT [0x03, 0x67, lo, hi] JUndefined =
     Inr (Some [''Error'' \<mapsto> JBool False, ''temperature'' \<mapsto> JNum (of_int (int16_le lo hi) / 10)])"
    using S [of "[]" lo hi "[]"] by (simp add: Decoder_SMT_def loop_SMT_done)
  have "Decoder_AM100 [0x03, 0x67, 0xE6, 0x00] JUndefined =
     Some [''Error'' \<mapsto> JBool False, ''temperature'' \<mapsto> JNum 23]"
    using DA [of "0xE6" "0x00"] by (simp add: int16_le_def uint16_le_def)
  moreover have "Decoder_AM100 [0x03, 0x67, 0xE6, 0xFF] JUndefined =
     Some [''Error'' \<mapsto> JBool False, ''temperature'' \<mapsto> JNum (- 26 / 10)]"
    using DA [of "0xE6" "0xFF"] by (simp add: int16_le_def uint16_le_def)
  ultimately show ?thesis
    using A DA DN DS by blast
qed

text \<open>
  Claim C7 asks that every hardware-version or software-version record (channel id
  0xFF, type 0x09 or 0x0A, two data bytes) is decoded as major + minor / 100 from its
  two packed-BCD bytes. Both pairs are in the table of EM500-SMT.js, but that script
  calls \<open>readVersion\<close> and does not declare it: on the bytes FF 09 02 01, and on
  FF 0A 02 01, its \<open>Decoder\<close> throws a \<open>ReferenceError\<close> and returns no result. AM100.js
  declares the function and returns \<open>HardwareVersion = 2 + 1 / 100\<close> with
  \<open>Error = false\<close> on the same bytes, which is the double 2.01.
\<close>

theorem SMT_version_record_throws:
  "known table_SMT (JNum 0xFF) (JNum 0x09) \<and> known table_SMT (JNum 0xFF) (JNum 0x0A)
   \<and> Decoder_SMT [0xFF, 0x09, 0x02, 0x01] JUndefined = Inl (ReferenceError ''readVersion'')
   \<and> Decoder_SMT [0xFF, 0x0A, 0x02, 0x01] JUndefined = Inl (ReferenceError ''readVersion'')
   \<and> Decoder_AM100 [0xFF, 0x09, 0x02, 0x01] JUndefined =
       Some [''Error'' \<mapsto> JBool False, ''HardwareVersion'' \<mapsto> JNum (2 + to_double (1 / 100))]
   \<and> to_double (2 + to_double (1 / 100)) = to_double (201 / 100)"
proof -
  have k: "known table_SMT (JNum 0xFF) (JNum 0x09)" "known table_SMT (JNum 0xFF) (JNum 0x0A)"
    by (simp_all add: known_def table_SMT_def)
  have h: "body_SMT [0xFF, 0x09, 0x02, 0x01] 0 [''Error'' \<mapsto> JBool False] =
      Inl (ReferenceError ''readVersion'')"
    by (simp add: body_SMT_def)
  have s: "body_SMT [0xFF, 0x0A, 0x02, 0x01] 0 [''Error'' \<mapsto> JBool False] =
      Inl (ReferenceError ''readVersion'')"
    by (simp add: body_SMT_def)
  have dh: "Decoder_SMT [0xFF, 0x09, 0x02, 0x01] JUndefined = Inl (ReferenceError ''readVersion'')"
    by (simp add: Decoder_SMT_def loop_SMT_throw [OF _ h])
  have ds: "Decoder_SMT [0xFF, 0x0A, 0x02, 0x01] JUndefined = Inl (ReferenceError ''readVersion'')"
    by (simp add: Decoder_SMT_def loop_SMT_throw [OF _ s])
  have a: "body_AM100 [0xFF, 0x09, 0x02, 0x01] 0 [''Error'' \<mapsto> JBool False] =
      Continue (length [0xFF, 0x09, 0x02, 0x01 :: u8])
        [''Error'' \<mapsto> JBool False, ''HardwareVersion'' \<mapsto> JNum (2 + to_double (1 / 100))]"
    using body_AM100_HardwareVersion [of "[]" "0x02" "0x01" "[]" "[''Error'' \<mapsto> JBool False]"]
    by (simp add: readVersion_bcd bcd_byte_def)
  have r: "to_double (2 + to_double (1 / 100)) = to_double (201 / 100)"
    by code_simp
  show ?thesis
    using k dh ds Decoder_AM100_one [OF a] r by simp
qed

text \<open>
  In AM100.js the property of claim C7 holds for a version record anywhere in a payload
  and for the payload of one record: the stored number is \<open>bcd(b0) + bcd(b1) / 100\<close>
  computed in doubles (the quotient is rounded, then the sum), where a byte whose low
  nibble exceeds 9 or whose value is at least 0xA0 counts as 0, and \<open>Error\<close> stays
  false. The two roundings show on FF 0A 01 14: the result is 1.1400000000000001, which
  is not the double nearest to 1.14.
\<close>

lemma AM100_version_packed_bcd:
  "loop_AM100 (pre @ 0xFF # 0x09 # b0 # b1 # post) (length pre) d =
     loop_AM100 (pre @ 0xFF # 0x09 # b0 # b1 # post) (length pre + 4)
       (d(''HardwareVersion'' \<mapsto>
            JNum (of_int (bcd_byte b0) + to_double (of_int (bcd_byte b1) / 100))))
   \<and> loop_AM100 (pre @ 0xFF # 0x0A # b0 # b1 # post) (length pre) d =
     loop_AM100 (pre @ 0xFF # 0x0A # b0 # b1 # post) (length pre + 4)
       (d(''SoftwareVersion'' \<mapsto>
            JNum (of_int (bcd_byte b0) + to_double (of_int (bcd_byte b1) / 100))))
   \<and> Decoder_AM100 [0xFF, 0x09, b0, b1] JUndefined =
     Some [''Error'' \<mapsto> JBool False,
           ''HardwareVersion'' \<mapsto>
              JNum (of_int (bcd_byte b0) + to_double (of_int (bcd_byte b1) / 100))]
   \<and> Decoder_AM100 [0xFF, 0x0A, b0, b1] JUndefined =
     Some [''Error'' \<mapsto> JBool False,
           ''SoftwareVersion'' \<mapsto>
              JNum (of_int (bcd_byte b0) + to_double (of_int (bcd_byte b1) / 100))]
   \<and> Decoder_AM100 [0xFF, 0x0A, 0x01, 0x14] JUndefined =
     Some [''Error'' \<mapsto> JBool False, ''SoftwareVersion'' \<mapsto> JNum (1 + to_double (14 / 100))]
   \<and> to_double (1 + to_double (14 / 100)) = 2567051787601183 / 2251799813685248
   \<and> to_double (1 + to_double (14 / 100)) \<noteq> to_double (114 / 100)
   \<and> Decoder_AM100 [0xFF, 0x09, 0x1A, 0xA5] JUndefined =
     Some [''Error'' \<mapsto> JBool False, ''HardwareVersion'' \<mapsto> JNum 0]"
proof -
  have H: "loop_AM100 (pre @ 0xFF # 0x09 # b0 # b1 # post) (length pre) d =
     loop_AM100 (pre @ 0xFF # 0x09 # b0 # b1 # post) (length pre + 4)
       (d(''HardwareVersion'' \<mapsto>
            JNum (of_int (bcd_byte b0) + to_double (of_int (bcd_byte b1) / 100))))"
    for pre b0 b1 post d
    by (rule loop_AM100_next) (simp_all only: body_AM100_HardwareVersion readVersion_bcd, simp)
  have S: "loop_AM100 (pre @ 0xFF # 0x0A # b0 # b1 # post) (length pre) d =
     loop_AM100 (pre @ 0xFF # 0x0A # b0 # b1 # post) (length pre + 4)
       (d(''SoftwareVersion'' \<mapsto>
            JNum (of_int (bcd_byte b0) + to_double (of_int (bcd_byte b1) / 100))))"
    for pre b0 b1 post d
    by (rule loop_AM100_next) (simp_all only: body_AM100_SoftwareVersion readVersion_bcd, simp)
  have DH: "Decoder_AM100 [0xFF, 0x09, b0, b1] JUndefined =
     Some [''Error'' \<mapsto> JBool False,
           ''HardwareVersion'' \<mapsto>
              JNum (of_int (bcd_byte b0) + to_double (of_int (bcd_byte b1) / 100))]"
    for b0 b1
    using H [of "[]" b0 b1 "[]"] by (simp add: Decoder_AM100_def loop_AM100_done)
  have DS: "Decoder_AM100 [0xFF, 0x0A, b0, b1] JUndefined =
     Some [''Error'' \<mapsto> JBool False,
           ''SoftwareVersion'' \<mapsto>
              JNum (of_int (bcd_byte b0) + to_double (of_int (bcd_byte b1) / 100))]"
    for b0 b1
    using S [of "[]" b0 b1 "[]"] by (simp add: Decoder_AM100_def loop_AM100_done)
  have e1: "Decoder_AM100 [0xFF, 0x0A, 0x01, 0x14] JUndefined =
     Some [''Error'' \<mapsto> JBool False, ''SoftwareVersion'' \<mapsto> JNum (1 + to_double (14 / 100))]"
    using DS [of "0x01" "0x14"] by (simp add: bcd_byte_def)
  have e2: "to_double (1 + to_double (14 / 100)) = 2567051787601183 / 2251799813685248"
    by code_simp
  have e3: "to_double (1 + to_double (14 / 100)) \<noteq> to_double (114 / 100)"
    by code_simp
  have e4: "Decoder_AM100 [0xFF, 0x09, 0x1A, 0xA5] JUndefined =
     Some [''Error'' \<mapsto> JBool False, ''HardwareVersion'' \<mapsto> JNum 0]"
    using DH [of "0x1A" "0xA5"] by (simp add: bcd_byte_def to_double_def)
  show ?thesis
    by (intro conjI) (fact H S DH DS e1 e2 e3 e4)+
qed

text \<open>
  Claim C8. A serial-number record of the ambience profile (channel id 0xFF, type 0x08)
  with six data bytes stores \<open>SerialNumber\<close> as the six bytes, each written as exactly
  two lowercase hexadecimal digits, separated by hyphens; the bytes
  FF 08 AA BB CC DD EE FF decode to \<open>aa-bb-cc-dd-ee-ff\<close>.
\<close>

theorem serial_number_hyphenated_hex:
  "loop_AM100 (pre @ 0xFF # 0x08 # b0 # b1 # b2 # b3 # b4 # b5 # post) (length pre) d =
     loop_AM100 (pre @ 0xFF # 0x08 # b0 # b1 # b2 # b3 # b4 # b5 # post) (length pre + 8)
       (d(''SerialNumber'' \<mapsto> JStr (hex2 b0 @ ''-'' @ hex2 b1 @ ''-'' @ hex2 b2 @ ''-'' @
                                       hex2 b3 @ ''-'' @ hex2 b4 @ ''-'' @ hex2 b5)))
   \<and> Decoder_AM100 [0xFF, 0x08, b0, b1, b2, b3, b4, b5] JUndefined =
     Some [''Error'' \<mapsto> JBool False,
           ''SerialNumber'' \<mapsto> JStr (hex2 b0 @ ''-'' @ hex2 b1 @ ''-'' @ hex2 b2 @ ''-'' @
                                       hex2 b3 @ ''-'' @ hex2 b4 @ ''-'' @ hex2 b5)]
   \<and> Decoder_AM100 [0xFF, 0x08, 0xAA, 0xBB, 0xCC, 0xDD, 0xEE, 0xFF] JUndefined =
     Some [''Error'' \<mapsto> JBool False, ''SerialNumber'' \<mapsto> JStr ''aa-bb-cc-dd-ee-ff'']
   \<and> Decoder_AM100 [0xFF, 0x08, 0x00, 0x01, 0x0A, 0x10, 0x9F, 0xF0] JUndefined =
     Some [''Error'' \<mapsto> JBool False, ''SerialNumber'' \<mapsto> JStr ''00-01-0a-10-9f-f0'']"
proof -
  have L: "loop_AM100 (pre @ 0xFF # 0x08 # b0 # b1 # b2 # b3 # b4 # b5 # post) (length pre) d =
     loop_AM100 (pre @ 0xFF # 0x08 # b0 # b1 # b2 # b3 # b4 # b5 # post) (length pre + 8)
       (d(''SerialNumber'' \<mapsto> JStr (hex2 b0 @ ''-'' @ hex2 b1 @ ''-'' @ hex2 b2 @ ''-'' @
                                       hex2 b3 @ ''-'' @ hex2 b4 @ ''-'' @ hex2 b5)))"
    for pre b0 b1 b2 b3 b4 b5 post d
    by (rule loop_AM100_next) (simp_all only: body_AM100_SerialNumber readHexBytes_six, simp)
  have D: "Decoder_AM100 [0xFF, 0x08, b0, b1, b2, b3, b4, b5] JUndefined =
     Some [''Error'' \<mapsto> JBool False,
           ''SerialNumber'' \<mapsto> JStr (hex2 b0 @ ''-'' @ hex2 b1 @ ''-'' @ hex2 b2 @ ''-'' @
                                       hex2 b3 @ ''-'' @ hex2 b4 @ ''-'' @ hex2 b5)]"
    for b0 b1 b2 b3 b4 b5
    using L [of "[]" b0 b1 b2 b3 b4 b5 "[]"] by (simp add: Decoder_AM100_def loop_AM100_done)
  have "Decoder_AM100 [0xFF, 0x08, 0xAA, 0xBB, 0xCC, 0xDD, 0xEE, 0xFF] JUndefined =
     Some [''Error'' \<mapsto> JBool False, ''SerialNumber'' \<mapsto> JStr ''aa-bb-cc-dd-ee-ff'']"
    unfolding D by (simp add: hex2_def hexdigit_def)
  moreover have "Decoder_AM100 [0xFF, 0x08, 0x00, 0x01, 0x0A, 0x10, 0x9F, 0xF0] JUndefined =
     Some [''Error'' \<mapsto> JBool False, ''SerialNumber'' \<mapsto> JStr ''00-01-0a-10-9f-f0'']"
    unfolding D by (simp add: hex2_def hexdigit_def)
  ultimately show ?thesis
    using L D by blast
qed

text \<open>
  Claim C9. The decoder of AM100.js and its copy in AM100-node-red.js differ on the
  payload 05 6A 00 80. On a payload of one activity, illumination, TVOC or pressure
  record AM100.js stores the signed 16-bit value and the copy the unsigned one, so the
  two results are equal exactly when the raw value \<open>lo + 256 * hi\<close> is below \<open>0x8000\<close>.
\<close>

theorem AM100_and_node_red_diverge:
  "Decoder_AM100 [0x05, 0x6A, 0x00, 0x80] JUndefined \<noteq>
     Decoder_node_red [0x05, 0x6A, 0x00, 0x80] JUndefined
   \<and> Decoder_AM100 [0x05, 0x6A, lo, hi] JUndefined =
     Some [''Error'' \<mapsto> JBool False, ''activity'' \<mapsto> JNum (of_int (int16_le lo hi))]
   \<and> Decoder_node_red [0x05, 0x6A, lo, hi] JUndefined =
     Some [''Error'' \<mapsto> JBool False, ''activity'' \<mapsto> JNum (of_int (uint16_le lo hi))]
   \<and> Decoder_AM100 [0x06, 0x65, lo, hi, b2, b3, b4, b5] JUndefined =
     Some [''Error'' \<mapsto> JBool False, ''illumination'' \<mapsto> JNum (of_int (int16_le lo hi))]
   \<and> Decoder_node_red [0x06, 0x65, lo, hi, b2, b3, b4, b5] JUndefined =
     Some [''Error'' \<mapsto> JBool False, ''illumination'' \<mapsto> JNum (of_int (uint16_le lo hi))]
   \<and> Decoder_AM100 [0x08, 0x7D, lo, hi] JUndefined =
     Some [''Error'' \<mapsto> JBool False, ''tvoc'' \<mapsto> JNum (of_int (int16_le lo hi))]
   \<and> Decoder_node_red [0x08, 0x7D, lo, hi] JUndefined =
     Some [''Error'' \<mapsto> JBool False, ''tvoc'' \<mapsto> JNum (of_int (uint16_le lo hi))]
   \<and> Decoder_AM100 [0x09, 0x73, lo, hi] JUndefined =
     Some [''Error'' \<mapsto> JBool False, ''pressure'' \<mapsto> JNum (of_int (int16_le lo hi) / 10)]
   \<and> Decoder_node_red [0x09, 0x73, lo, hi] JUndefined =
     Some [''Error'' \<mapsto> JBool False, ''pressure'' \<mapsto> JNum (of_int (uint16_le lo hi) / 10)]
   \<and> (Decoder_AM100 [0x05, 0x6A, lo, hi] JUndefined = Decoder_node_red [0x05, 0x6A, lo, hi] JUndefined)
       = (uint16_le lo hi < 0x8000)
   \<and> (Decoder_AM100 [0x06, 0x65, lo, hi, b2, b3, b4, b5] JUndefined =
        Decoder_node_red [0x06, 0x65, lo, hi, b2, b3, b4, b5] JUndefined)
       = (uint16_le lo hi < 0x8000)
   \<and> (Decoder_AM100 [0x08, 0x7D, lo, hi] JUndefined = Decoder_node_red [0x08, 0x7D, lo, hi] JUndefined)
       = (uint16_le lo hi < 0x8000)
   \<and> (Decoder_AM100 [0x09, 0x73, lo, hi] JUndefined = Decoder_node_red [0x09, 0x73, lo, hi] JUndefined)
       = (uint16_le lo hi < 0x8000)"
proof -
  have eqs:
    "(Decoder_AM100 [0x05, 0x6A, lo, hi] JUndefined = Decoder_node_red [0x05, 0x6A, lo, hi] JUndefined)
       = (uint16_le lo hi < 0x8000)"
    "(Decoder_AM100 [0x06, 0x65, lo, hi, b2, b3, b4, b5] JUndefined =
        Decoder_node_red [0x06, 0x65, lo, hi, b2, b3, b4, b5] JUndefined)
       = (uint16_le lo hi < 0x8000)"
    "(Decoder_AM100 [0x08, 0x7D, lo, hi] JUndefined = Decoder_node_red [0x08, 0x7D, lo, hi] JUndefined)
       = (uint16_le lo hi < 0x8000)"
    "(Decoder_AM100 [0x09, 0x73, lo, hi] JUndefined = Decoder_node_red [0x09, 0x73, lo, hi] JUndefined)
       = (uint16_le lo hi < 0x8000)"
    for lo hi b2 b3 b4 b5
    by (simp_all only: signed_unsigned_single_records option.inject single_field_eq jsval.inject
          of_int_eq_iff int16_le_eq_uint16_le divide_cancel_right, simp_all)
  have ne: "Decoder_AM100 [0x05, 0x6A, 0x00, 0x80] JUndefined \<noteq>
     Decoder_node_red [0x05, 0x6A, 0x00, 0x80] JUndefined"
    unfolding eqs(1) by (simp add: uint16_le_def)
  show ?thesis
    by (intro conjI) (fact ne eqs signed_unsigned_single_records)+
qed

text \<open>
  Claim C10 as stated fails where it says that truncation sets \<open>Error\<close> in the ambience
  decoders. AM100.js has no length check: on 01 75 32 03 it reads the missing type byte
  as \<open>undefined\<close>, takes its unknown-channel branch and returns \<open>Error = false\<close> with
  \<open>error = true\<close>.
\<close>

theorem AM100_truncated_header_sets_lowercase_error:
  "Decoder_AM100 [0x01, 0x75, 0x32, 0x03] JUndefined =
     Some [''Error'' \<mapsto> JBool False, ''battery'' \<mapsto> JNum 50, ''error'' \<mapsto> JBool True]"
proof -
  let ?bs = "[0x01, 0x75, 0x32, 0x03] :: u8 list"
  have 1: "loop_AM100 ?bs 0 [''Error'' \<mapsto> JBool False] =
      loop_AM100 ?bs 3 [''Error'' \<mapsto> JBool False, ''battery'' \<mapsto> JNum 50]"
    using loop_AM100_next [OF _ body_AM100_battery [of "[]" "0x32" "[0x03]" "[''Error'' \<mapsto> JBool False]"]]
    by simp
  have k: "\<not> known table_AM100 (byte_at ?bs 3) (byte_at ?bs (3 + 1))"
    by (simp add: known_def table_AM100_def byte_at_def)
  have 2: "loop_AM100 ?bs 3 [''Error'' \<mapsto> JBool False, ''battery'' \<mapsto> JNum 50] =
      (5, [''Error'' \<mapsto> JBool False, ''battery'' \<mapsto> JNum 50, ''error'' \<mapsto> JBool True])"
    using loop_AM100_break [OF _ body_AM100_unknown [OF k]] by (simp add: byte_at_def)
  show ?thesis
    by (simp add: Decoder_AM100_def 1 2)
qed

text \<open>
  Claim C10, as amended. The error indicator is two properties. Let the loop of a
  decoder arrive at cursor \<open>i\<close> with result \<open>d\<close>. In the ambience and soil decoders, if
  the pair at \<open>i\<close> is unknown and its channel id is not 0xFF, \<open>Decoder\<close> returns \<open>d\<close>
  with \<open>error = true\<close>, and \<open>Error\<close> is still false; if the pair is an unknown sub-type of
  channel id 0xFF, \<open>Decoder\<close> returns \<open>d\<close> with \<open>Error = true\<close> and no \<open>error\<close>.
  Truncation sets \<open>Error\<close> in the soil decoder only; in the ambience decoders a lone
  last byte is an unknown pair like any other. So a result has one of three shapes:
  \<open>Error = false\<close> without \<open>error\<close>, \<open>Error = true\<close> without \<open>error\<close>, or
  \<open>Error = false\<close> with \<open>error = true\<close>. The light decoder returns \<open>d\<close> as it is on an
  unknown pair, and its result never has either property.
\<close>

theorem error_indicator_split:
  "(visits_AM100 bytes i d \<and> i < length bytes \<and> \<not> known table_AM100 (byte_at bytes i) (byte_at bytes (i + 1))
      \<and> byte_at bytes i \<noteq> JNum 0xFF \<longrightarrow>
      Decoder_AM100 bytes JUndefined = Some (d(''error'' \<mapsto> JBool True))
      \<and> error_flags (d(''error'' \<mapsto> JBool True)) = (Some (JBool False), Some (JBool True)))
   \<and> (visits_AM100 bytes i d \<and> i < length bytes \<and> \<not> known table_AM100 (byte_at bytes i) (byte_at bytes (i + 1))
      \<and> byte_at bytes i = JNum 0xFF \<longrightarrow>
      Decoder_AM100 bytes JUndefined = Some (d(''Error'' \<mapsto> JBool True))
      \<and> error_flags (d(''Error'' \<mapsto> JBool True)) = (Some (JBool True), None))
   \<and> (visits_node_red bytes i d \<and> i < length bytes \<and> \<not> known table_AM100 (byte_at bytes i) (byte_at bytes (i + 1))
      \<and> byte_at bytes i \<noteq> JNum 0xFF \<longrightarrow>
      Decoder_node_red bytes JUndefined = Some (d(''error'' \<mapsto> JBool True))
      \<and> error_flags (d(''error'' \<mapsto> JBool True)) = (Some (JBool False), Some (JBool True)))
   \<and> (visits_node_red bytes i d \<and> i < length bytes \<and> \<not> known table_AM100 (byte_at bytes i) (byte_at bytes (i + 1))
      \<and> byte_at bytes i = JNum 0xFF \<longrightarrow>
      Decoder_node_red bytes JUndefined = Some (d(''Error'' \<mapsto> JBool True))
      \<and> error_flags (d(''Error'' \<mapsto> JBool True)) = (Some (JBool True), None))
   \<and> (i + 1 = length bytes \<longrightarrow> \<not> known table_AM100 (byte_at bytes i) (byte_at bytes (i + 1)))
   \<and> (visits_SMT bytes i d \<and> i + 2 \<le> length bytes \<and> \<not> known table_SMT (byte_at bytes i) (byte_at bytes (i + 1))
      \<and> byte_at bytes i \<noteq> JNum 0xFF \<longrightarrow>
      Decoder_SMT bytes JUndefined = Inr (Some (d(''error'' \<mapsto> JBool True)))
      \<and> error_flags (d(''error'' \<mapsto> JBool True)) = (Some (JBool False), Some (JBool True)))
   \<and> (visits_SMT bytes i d \<and> i + 2 \<le> length bytes \<and> \<not> known table_SMT (byte_at bytes i) (byte_at bytes (i + 1))
      \<and> byte_at bytes i = JNum 0xFF \<longrightarrow>
      Decoder_SMT bytes JUndefined = Inr (Some (d(''Error'' \<mapsto> JBool True)))
      \<and> error_flags (d(''Error'' \<mapsto> JBool True)) = (Some (JBool True), None))
   \<and> (visits_SMT bytes i d \<and> i < length bytes \<and> int i > int (length bytes) - 2 \<longrightarrow>
      Decoder_SMT bytes JUndefined = Inr (Some (d(''Error'' \<mapsto> JBool True)))
      \<and> error_flags (d(''Error'' \<mapsto> JBool True)) = (Some (JBool True), None))
   \<and> (visits_LGT bytes i d \<and> i < length bytes \<and> \<not> known table_LGT (byte_at bytes i) (byte_at bytes (i + 1)) \<longrightarrow>
      Decoder_LGT bytes port = Some d \<and> error_flags d = (None, None))
   \<and> map_option error_flags (Decoder_AM100 bytes JUndefined) \<in>
       {Some (Some (JBool False), None), Some (Some (JBool True), None),
        Some (Some (JBool False), Some (JBool True))}
   \<and> map_option error_flags (Decoder_node_red bytes JUndefined) \<in>
       {Some (Some (JBool False), None), Some (Some (JBool True), None),
        Some (Some (JBool False), Some (JBool True))}
   \<and> ((\<exists>e. Decoder_SMT bytes JUndefined = Inl e) \<or>
       (\<exists>r. Decoder_SMT bytes JUndefined = Inr (Some r) \<and> error_flags r \<in>
         {(Some (JBool False), None), (Some (JBool True), None),
          (Some (JBool False), Some (JBool True))}))
   \<and> map_option error_flags (Decoder_LGT bytes port) = Some (None, None)"
proof -
  have A: "Decoder_AM100 bytes JUndefined =
        Some (d((if byte_at bytes i = JNum 0xFF then ''Error'' else ''error'') \<mapsto> JBool True))
      \<and> error_flags d = (Some (JBool False), None)"
    if v: "visits_AM100 bytes i d" and l: "i < length bytes"
      and k: "\<not> known table_AM100 (byte_at bytes i) (byte_at bytes (i + 1))"
    using loop_AM100_break [OF l body_AM100_unknown [OF k], of d] visits_AM100_loop [OF v]
      visits_AM100_flags [OF v]
    by (simp add: Decoder_AM100_def)
  have A1: "Decoder_AM100 bytes JUndefined = Some (d(''error'' \<mapsto> JBool True))
      \<and> error_flags (d(''error'' \<mapsto> JBool True)) = (Some (JBool False), Some (JBool True))"
    if h: "visits_AM100 bytes i d \<and> i < length bytes \<and> \<not> known table_AM100 (byte_at bytes i) (byte_at bytes (i + 1))
      \<and> byte_at bytes i \<noteq> JNum 0xFF"
  proof -
    from h have v: "visits_AM100 bytes i d" by blast
    from h have l: "i < length bytes" by blast
    from h have k: "\<not> known table_AM100 (byte_at bytes i) (byte_at bytes (i + 1))" by blast
    from h have n: "byte_at bytes i \<noteq> JNum 0xFF" by blast
    show ?thesis using A [OF v l k] n by (simp add: error_flags_def)
  qed
  have A2: "Decoder_AM100 bytes JUndefined = Some (d(''Error'' \<mapsto> JBool True))
      \<and> error_flags (d(''Error'' \<mapsto> JBool True)) = (Some (JBool True), None)"
    if h: "visits_AM100 bytes i d \<and> i < length bytes \<and> \<not> known table_AM100 (byte_at bytes i) (byte_at bytes (i + 1))
      \<and> byte_at bytes i = JNum 0xFF"
  proof -
    from h have v: "visits_AM100 bytes i d" by blast
    from h have l: "i < length bytes" by blast
    from h have k: "\<not> known table_AM100 (byte_at bytes i) (byte_at bytes (i + 1))" by blast
    from h have n: "byte_at bytes i = JNum 0xFF" by blast
    show ?thesis using A [OF v l k] n by (simp add: error_flags_def)
  qed
  have N: "Decoder_node_red bytes JUndefined =
        Some (d((if byte_at bytes i = JNum 0xFF then ''Error'' else ''error'') \<mapsto> JBool True))
      \<and> error_flags d = (Some (JBool False), None)"
    if v: "visits_node_red bytes i d" and l: "i < length bytes"
      and k: "\<not> known table_AM100 (byte_at bytes i) (byte_at bytes (i + 1))"
    using loop_node_red_break [OF l body_node_red_unknown [OF k], of d] visits_node_red_loop [OF v]
      visits_node_red_flags [OF v]
    by (simp add: Decoder_node_red_def)
  have N1: "Decoder_node_red bytes JUndefined = Some (d(''error'' \<mapsto> JBool True))
      \<and> error_flags (d(''error'' \<mapsto> JBool True)) = (Some (JBool False), Some (JBool True))"
    if h: "visits_node_red bytes i d \<and> i < length bytes \<and> \<not> known table_AM100 (byte_at bytes i) (byte_at bytes (i + 1))
      \<and> byte_at bytes i \<noteq> JNum 0xFF"
  proof -
    from h have v: "visits_node_red bytes i d" by blast
    from h have l: "i < length bytes" by blast
    from h have k: "\<not> known table_AM100 (byte_at bytes i) (byte_at bytes (i + 1))" by blast
    from h have n: "byte_at bytes i \<noteq> JNum 0xFF" by blast
    show ?thesis using N [OF v l k] n by (simp add: error_flags_def)
  qed
  have N2: "Decoder_node_red bytes JUndefined = Some (d(''Error'' \<mapsto> JBool True))
      \<and> error_flags (d(''Error'' \<mapsto> JBool True)) = (Some (JBool True), None)"
    if h: "visits_node_red bytes i d \<and> i < length bytes \<and> \<not> known table_AM100 (byte_at bytes i) (byte_at bytes (i + 1))
      \<and> byte_at bytes i = JNum 0xFF"
  proof -
    from h have v: "visits_node_red bytes i d" by blast
    from h have l: "i < length bytes" by blast
    from h have k: "\<not> known table_AM100 (byte_at bytes i) (byte_at bytes (i + 1))" by blast
    from h have n: "byte_at bytes i = JNum 0xFF" by blast
    show ?thesis using N [OF v l k] n by (simp add: error_flags_def)
  qed
  have U: "\<not> known table_AM100 (byte_at bytes i) (byte_at bytes (i + 1))" if "i + 1 = length bytes"
    using that by (simp add: known_def table_AM100_def byte_at_def)
  have S: "Decoder_SMT bytes JUndefined =
        Inr (Some (d((if byte_at bytes i = JNum 0xFF then ''Error'' else ''error'') \<mapsto> JBool True)))
      \<and> error_flags d = (Some (JBool False), None)"
    if v: "visits_SMT bytes i d" and l: "i + 2 \<le> length bytes"
      and k: "\<not> known table_SMT (byte_at bytes i) (byte_at bytes (i + 1))"
  proof -
    from l have l': "i < length bytes" by simp
    show ?thesis
      using loop_SMT_break [OF l' body_SMT_unknown [OF l k], of d] visits_SMT_loop [OF v]
        visits_SMT_flags [OF v]
      by (simp add: Decoder_SMT_def)
  qed
  have S1: "Decoder_SMT bytes JUndefined = Inr (Some (d(''error'' \<mapsto> JBool True)))
      \<and> error_flags (d(''error'' \<mapsto> JBool True)) = (Some (JBool False), Some (JBool True))"
    if h: "visits_SMT bytes i d \<and> i + 2 \<le> length bytes \<and> \<not> known table_SMT (byte_at bytes i) (byte_at bytes (i + 1))
      \<and> byte_at bytes i \<noteq> JNum 0xFF"
  proof -
    from h have v: "visits_SMT bytes i d" by blast
    from h have l: "i + 2 \<le> length bytes" by blast
    from h have k: "\<not> known table_SMT (byte_at bytes i) (byte_at bytes (i + 1))" by blast
    from h have n: "byte_at bytes i \<noteq> JNum 0xFF" by blast
    show ?thesis using S [OF v l k] n by (simp add: error_flags_def)
  qed
  have S2: "Decoder_SMT bytes JUndefined = Inr (Some (d(''Error'' \<mapsto> JBool True)))
      \<and> error_flags (d(''Error'' \<mapsto> JBool True)) = (Some (JBool True), None)"
    if h: "visits_SMT bytes i d \<and> i + 2 \<le> length bytes \<and> \<not> known table_SMT (byte_at bytes i) (byte_at bytes (i + 1))
      \<and> byte_at bytes i = JNum 0xFF"
  proof -
    from h have v: "visits_SMT bytes i d" by blast
    from h have l: "i + 2 \<le> length bytes" by blast
    from h have k: "\<not> known table_SMT (byte_at bytes i) (byte_at bytes (i + 1))" by blast
    from h have n: "byte_at bytes i = JNum 0xFF" by blast
    show ?thesis using S [OF v l k] n by (simp add: error_flags_def)
  qed
  have S3: "Decoder_SMT bytes JUndefined = Inr (Some (d(''Error'' \<mapsto> JBool True)))
      \<and> error_flags (d(''Error'' \<mapsto> JBool True)) = (Some (JBool True), None)"
    if h: "visits_SMT bytes i d \<and> i < length bytes \<and> int i > int (length bytes) - 2"
  proof -
    from h have v: "visits_SMT bytes i d" by blast
    from h have l: "i < length bytes" by blast
    from h have t: "int i > int (length bytes) - 2" by blast
    show ?thesis
      using loop_SMT_break [OF l body_SMT_truncated [OF t], of d] visits_SMT_loop [OF v]
        visits_SMT_flags [OF v]
      by (simp add: Decoder_SMT_def error_flags_def)
  qed
  have L: "Decoder_LGT bytes port = Some d \<and> error_flags d = (None, None)"
    if h: "visits_LGT bytes i d \<and> i < length bytes \<and> \<not> known table_LGT (byte_at bytes i) (byte_at bytes (i + 1))"
  proof -
    from h have v: "visits_LGT bytes i d" by blast
    from h have l: "i < length bytes" by blast
    from h have k: "\<not> known table_LGT (byte_at bytes i) (byte_at bytes (i + 1))" by blast
    show ?thesis
      using loop_LGT_break [OF l body_LGT_unknown [OF k], of d] visits_LGT_loop [OF v]
        visits_LGT_flags [OF v]
      by (simp add: Decoder_LGT_def)
  qed
  have d0: "error_flags [''Error'' \<mapsto> JBool False] = (Some (JBool False), None)"
    by (simp add: error_flags_def)
  have FA: "map_option error_flags (Decoder_AM100 bytes JUndefined) \<in>
       {Some (Some (JBool False), None), Some (Some (JBool True), None),
        Some (Some (JBool False), Some (JBool True))}"
    using loop_AM100_flags [OF d0, of bytes 0] by (auto simp: Decoder_AM100_def)
  have FN: "map_option error_flags (Decoder_node_red bytes JUndefined) \<in>
       {Some (Some (JBool False), None), Some (Some (JBool True), None),
        Some (Some (JBool False), Some (JBool True))}"
    using loop_node_red_flags [OF d0, of bytes 0] by (auto simp: Decoder_node_red_def)
  have FS: "(\<exists>e. Decoder_SMT bytes JUndefined = Inl e) \<or>
       (\<exists>r. Decoder_SMT bytes JUndefined = Inr (Some r) \<and> error_flags r \<in>
         {(Some (JBool False), None), (Some (JBool True), None),
          (Some (JBool False), Some (JBool True))})"
    using loop_SMT_flags [OF d0, of bytes 0] by (auto simp: Decoder_SMT_def)
  have FL: "map_option error_flags (Decoder_LGT bytes port) = Some (None, None)"
    using loop_LGT_flags [of bytes 0 Map.empty] by (simp add: Decoder_LGT_def error_flags_def)
  show ?thesis
    using A1 A2 N1 N2 U S1 S2 S3 L FA FN FS FL by blast
qed

text \<open>
  The hypotheses of the theorem for C10 hold after a battery record, at cursor 3 of the
  payloads 01 75 32 02 99 (unknown ordinary pair), 01 75 32 FF 99 (unknown system
  sub-type) and 01 75 32 03 (half a header).
\<close>

theorem error_indicator_split_witness:
  "visits_AM100 [0x01, 0x75, 0x32, 0x02, 0x99] 3 [''Error'' \<mapsto> JBool False, ''battery'' \<mapsto> JNum 50]
   \<and> \<not> known table_AM100 (byte_at [0x01, 0x75, 0x32, 0x02, 0x99] 3)
                       (byte_at [0x01, 0x75, 0x32, 0x02, 0x99] (3 + 1))
   \<and> byte_at [0x01, 0x75, 0x32, 0x02, 0x99] 3 \<noteq> JNum 0xFF
   \<and> Decoder_AM100 [0x01, 0x75, 0x32, 0x02, 0x99] JUndefined =
       Some [''Error'' \<mapsto> JBool False, ''battery'' \<mapsto> JNum 50, ''error'' \<mapsto> JBool True]
   \<and> Decoder_node_red [0x01, 0x75, 0x32, 0x02, 0x99] JUndefined =
       Some [''Error'' \<mapsto> JBool False, ''battery'' \<mapsto> JNum 50, ''error'' \<mapsto> JBool True]
   \<and> Decoder_SMT [0x01, 0x75, 0x32, 0x02, 0x99] JUndefined =
       Inr (Some [''Error'' \<mapsto> JBool False, ''battery'' \<mapsto> JNum 50, ''error'' \<mapsto> JBool True])
   \<and> visits_LGT [0x01, 0x75, 0x32, 0x02, 0x99] 3 [''battery'' \<mapsto> JNum 50]
   \<and> Decoder_LGT [0x01, 0x75, 0x32, 0x02, 0x99] JUndefined = Some [''battery'' \<mapsto> JNum 50]
   \<and> visits_AM100 [0x01, 0x75, 0x32, 0xFF, 0x99] 3 [''Error'' \<mapsto> JBool False, ''battery'' \<mapsto> JNum 50]
   \<and> byte_at [0x01, 0x75, 0x32, 0xFF, 0x99] 3 = JNum 0xFF
   \<and> Decoder_AM100 [0x01, 0x75, 0x32, 0xFF, 0x99] JUndefined =
       Some [''Error'' \<mapsto> JBool True, ''battery'' \<mapsto> JNum 50]
   \<and> Decoder_node_red [0x01, 0x75, 0x32, 0xFF, 0x99] JUndefined =
       Some [''Error'' \<mapsto> JBool True, ''battery'' \<mapsto> JNum 50]
   \<and> Decoder_SMT [0x01, 0x75, 0x32, 0xFF, 0x99] JUndefined =
       Inr (Some [''Error'' \<mapsto> JBool True, ''battery'' \<mapsto> JNum 50])
   \<and> visits_SMT [0x01, 0x75, 0x32, 0x03] 3 [''Error'' \<mapsto> JBool False, ''battery'' \<mapsto> JNum 50]
   \<and> int 3 > int (length [0x01, 0x75, 0x32, 0x03 :: u8]) - 2
   \<and> Decoder_SMT [0x01, 0x75, 0x32, 0x03] JUndefined =
       Inr (Some [''Error'' \<mapsto> JBool True, ''battery'' \<mapsto> JNum 50])
   \<and> \<not> known table_AM100 (byte_at [0x01, 0x75, 0x32, 0x03] 3) (byte_at [0x01, 0x75, 0x32, 0x03] (3 + 1))"
proof -
  let ?d0 = "[''Error'' \<mapsto> JBool False]"
  let ?d1 = "[''Error'' \<mapsto> JBool False, ''battery'' \<mapsto> JNum 50]"
  let ?b1 = "[0x01, 0x75, 0x32, 0x02, 0x99] :: u8 list"
  let ?b2 = "[0x01, 0x75, 0x32, 0xFF, 0x99] :: u8 list"
  let ?b3 = "[0x01, 0x75, 0x32, 0x03] :: u8 list"
  have vA: "visits_AM100 (0x01 # 0x75 # 0x32 # post) 3 ?d1" for post
    using visits_AM100_step [OF visits_AM100_start, of "0x01 # 0x75 # 0x32 # post" 3 ?d1]
      body_AM100_battery [of "[]" "0x32" post ?d0]
    by simp
  have vN: "visits_node_red (0x01 # 0x75 # 0x32 # post) 3 ?d1" for post
    using visits_node_red_step [OF visits_node_red_start, of "0x01 # 0x75 # 0x32 # post" 3 ?d1]
      body_node_red_battery [of "[]" "0x32" post ?d0]
    by simp
  have vS: "visits_SMT (0x01 # 0x75 # 0x32 # post) 3 ?d1" for post
    using visits_SMT_step [OF visits_SMT_start, of "0x01 # 0x75 # 0x32 # post" 3 ?d1]
      body_SMT_battery [of "[]" "0x32" post ?d0]
    by simp
  have vL: "visits_LGT (0x01 # 0x75 # 0x32 # post) 3 [''battery'' \<mapsto> JNum 50]" for post
    using visits_LGT_step [OF visits_LGT_start, of "0x01 # 0x75 # 0x32 # post" 3 "[''battery'' \<mapsto> JNum 50]"]
      body_LGT_battery [of "[]" "0x32" post Map.empty]
    by simp
  have k1: "\<not> known table_AM100 (byte_at ?b1 3) (byte_at ?b1 (3 + 1))"
    "\<not> known table_SMT (byte_at ?b1 3) (byte_at ?b1 (3 + 1))"
    "\<not> known table_LGT (byte_at ?b1 3) (byte_at ?b1 (3 + 1))"
    "byte_at ?b1 3 \<noteq> JNum 0xFF"
    by (simp_all add: known_def table_AM100_def table_SMT_def table_LGT_def byte_at_def)
  have k2: "\<not> known table_AM100 (byte_at ?b2 3) (byte_at ?b2 (3 + 1))"
    "\<not> known table_SMT (byte_at ?b2 3) (byte_at ?b2 (3 + 1))"
    "byte_at ?b2 3 = JNum 0xFF"
    by (simp_all add: known_def table_AM100_def table_SMT_def byte_at_def)
  note T1 = error_indicator_split [of ?b1 3 ?d1]
  note T2 = error_indicator_split [of ?b2 3 ?d1]
  note T3 = error_indicator_split [of ?b3 3 ?d1]
  note T4 = error_indicator_split [of ?b1 3 "[''battery'' \<mapsto> JNum 50]" JUndefined]
  have r1: "Decoder_AM100 ?b1 JUndefined = Some (?d1(''error'' \<mapsto> JBool True))"
    "Decoder_node_red ?b1 JUndefined = Some (?d1(''error'' \<mapsto> JBool True))"
    "Decoder_SMT ?b1 JUndefined = Inr (Some (?d1(''error'' \<mapsto> JBool True)))"
    using T1 vA [of "[0x02, 0x99]"] vN [of "[0x02, 0x99]"] vS [of "[0x02, 0x99]"] k1 by simp_all
  have r4: "Decoder_LGT ?b1 JUndefined = Some [''battery'' \<mapsto> JNum 50]"
    using T4 vL [of "[0x02, 0x99]"] k1 by simp
  have r2: "Decoder_AM100 ?b2 JUndefined = Some (?d1(''Error'' \<mapsto> JBool True))"
    "Decoder_node_red ?b2 JUndefined = Some (?d1(''Error'' \<mapsto> JBool True))"
    "Decoder_SMT ?b2 JUndefined = Inr (Some (?d1(''Error'' \<mapsto> JBool True)))"
    using T2 vA [of "[0xFF, 0x99]"] vN [of "[0xFF, 0x99]"] vS [of "[0xFF, 0x99]"] k2 by simp_all
  have r3: "Decoder_SMT ?b3 JUndefined = Inr (Some (?d1(''Error'' \<mapsto> JBool True)))"
    "\<not> known table_AM100 (byte_at ?b3 3) (byte_at ?b3 (3 + 1))"
    using T3 vS [of "[0x03]"] by simp_all
  have m: "?d1(''Error'' \<mapsto> JBool True) = [''Error'' \<mapsto> JBool True, ''battery'' \<mapsto> JNum 50]"
    by (simp add: fun_upd_twist)
  show ?thesis
    using vA [of "[0x02, 0x99]"] vA [of "[0xFF, 0x99]"] vS [of "[0x03]"] vL [of "[0x02, 0x99]"]
      k1 k2 r1 r2 r3 r4 m
    by simp
qed

end
